theory Spec2Isabelle
  imports Main
begin

section \<open>Workflow service: data model\<close>

text \<open>
  \<^verbatim>\<open>type WorkflowStatus string\<close> with its four constants. The Go type is a string type, so
  the model keeps it a string and names the constants.
\<close>

type_synonym WorkflowStatus = string

definition StatusCreated :: WorkflowStatus where
  "StatusCreated = ''created''"

definition StatusRunning :: WorkflowStatus where
  "StatusRunning = ''running''"

definition StatusCompleted :: WorkflowStatus where
  "StatusCompleted = ''completed''"

definition StatusPaused :: WorkflowStatus where
  "StatusPaused = ''paused''"

text \<open>
  \<^verbatim>\<open>type Workflow struct\<close>. The two slices are lists (a nil slice and an empty one are both
  the empty list). \<^verbatim>\<open>StartedAt\<close> and \<^verbatim>\<open>CompletedAt\<close> are Go strings tagged
  \<^verbatim>\<open>omitempty\<close>: the field is absent exactly when the string is empty.
\<close>

record Workflow =
  ID :: string
  Name :: string
  DeviceID :: string
  SampleBarcodes :: "string list"
  Steps :: "string list"
  Status :: WorkflowStatus
  CreatedAt :: string
  StartedAt :: string
  CompletedAt :: string

record CreateWorkflowRequest =
  req_Name :: string
  req_DeviceID :: string
  req_SampleBarcodes :: "string list"
  req_Steps :: "string list"

text \<open>
  A value of type \<^verbatim>\<open>interface{}\<close> carries its dynamic type, which the type assertions of
  \<^verbatim>\<open>updateWorkflow\<close> test: a \<^verbatim>\<open>WorkflowStatus\<close> is not a \<^verbatim>\<open>string\<close> there.
\<close>

datatype any = AString string | AWorkflowStatus WorkflowStatus | AInt int | ABool bool | ANil

text \<open>
  The body of a response of the device service, as the workflow service reads it: a JSON
  object whose members are strings, with distinct names (every reply of the device
  service's handlers), or anything else (\<open>Text\<close>, such as the router's 404 page).
\<close>

datatype wire = Text string | Object "(string \<times> string) list"

text \<open>
  The request structs of the workflow service, \<^verbatim>\<open>BookDeviceRequest{WorkflowID}\<close>,
  \<^verbatim>\<open>ReleaseDeviceRequest{WorkflowID}\<close> and \<^verbatim>\<open>ExecuteDeviceRequest{WorkflowID, Operation}\<close>,
  each posted as its JSON encoding (\<^verbatim>\<open>json.Marshal\<close>): an object with the member
  \<^verbatim>\<open>workflow_id\<close> and, for the last, \<^verbatim>\<open>operation\<close>.
\<close>

datatype device_request =
    BookDeviceRequest string
  | ReleaseDeviceRequest string
  | ExecuteDeviceRequest string string

text \<open>\<^verbatim>\<open>json.Unmarshal(body, &errorResp)\<close> into a map, the error dropped: a failed parse leaves nil.\<close>

fun unmarshal_map :: "wire \<Rightarrow> (string \<times> string) list option" where
  "unmarshal_map (Text t) = None"
| "unmarshal_map (Object kvs) = Some kvs"

record http_response =
  StatusCode :: nat
  Body :: wire

text \<open>What a handler writes with \<^verbatim>\<open>c.JSON(code, obj)\<close>.\<close>

datatype body =
    H_error string
  | H_error_details string "(string \<times> string) list option"
  | J_workflow "Workflow option"
  | J_step string int string "(string \<times> string) list option"

datatype response = Response (code: nat) (payload: body)

text \<open>A handler either replies or panics (a Go runtime panic, or a library's).\<close>

datatype outcome = Reply response | Panic string

section \<open>Workflow service: the state store\<close>

text \<open>
  The service's view of the world. \<open>workflows_key\<close> is the value stored in Redis under
  \<^verbatim>\<open>WORKFLOWS_KEY\<close>, decoded: \<open>None\<close> is \<^verbatim>\<open>redis.Nil\<close> (no such key). The blob is written
  by \<^verbatim>\<open>saveWorkflows\<close> only, so it always decodes. \<open>redis_faults\<close> lists the outcomes of the
  Redis commands to come (\<open>True\<close>: the command returns an error and has no effect); once the
  list is used up, commands succeed. \<open>uuid_source\<close> lists the identifiers \<^verbatim>\<open>uuid.New()\<close> will
  return; \<^verbatim>\<open>uuid.New\<close> panics when its random source fails, here when the list is empty.
  \<open>device_service\<close> is the state behind the device API.
\<close>

record 'd world =
  redis_faults :: "bool list"
  workflows_key :: "(string \<rightharpoonup> Workflow) option"
  uuid_source :: "string list"
  device_service :: 'd

definition redis_command :: "'d world \<Rightarrow> bool \<times> 'd world" where
  "redis_command w =
     (case redis_faults w of
        [] \<Rightarrow> (False, w)
      | f # fs \<Rightarrow> (f, w\<lparr>redis_faults := fs\<rparr>))"

definition uuid_New :: "'d world \<Rightarrow> (string \<times> 'd world) option" where
  "uuid_New w =
     (case uuid_source w of
        [] \<Rightarrow> None
      | u # us \<Rightarrow> Some (u, w\<lparr>uuid_source := us\<rparr>))"

definition getAllWorkflows :: "'d world \<Rightarrow> (string + (string \<rightharpoonup> Workflow)) \<times> 'd world" where
  "getAllWorkflows w =
     (case redis_command w of
        (True, w1) \<Rightarrow> (Inl ''redis: command failed'', w1)
      | (False, w1) \<Rightarrow>
          (case workflows_key w1 of
             None \<Rightarrow> (Inr Map.empty, w1)
           | Some workflows \<Rightarrow> (Inr workflows, w1)))"

definition saveWorkflows :: "(string \<rightharpoonup> Workflow) \<Rightarrow> 'd world \<Rightarrow> string option \<times> 'd world" where
  "saveWorkflows workflows w =
     (case redis_command w of
        (True, w1) \<Rightarrow> (Some ''redis: command failed'', w1)
      | (False, w1) \<Rightarrow> (None, w1\<lparr>workflows_key := Some workflows\<rparr>))"

definition getWorkflow :: "string \<Rightarrow> 'd world \<Rightarrow> (string + Workflow option) \<times> 'd world" where
  "getWorkflow workflowID w =
     (case getAllWorkflows w of
        (Inl err, w1) \<Rightarrow> (Inl err, w1)
      | (Inr workflows, w1) \<Rightarrow> (Inr (workflows workflowID), w1))"

text \<open>
  The four conditional assignments of \<^verbatim>\<open>updateWorkflow\<close>, each a type assertion on the
  entry of \<^verbatim>\<open>updates\<close> (a missing key is the nil interface, which no assertion accepts),
  and their sequence in the source's order.
\<close>

definition assign_name :: "any option \<Rightarrow> Workflow \<Rightarrow> Workflow" where
  "assign_name u workflow =
     (case u of Some (AString name) \<Rightarrow> workflow\<lparr>Name := name\<rparr> | _ \<Rightarrow> workflow)"

definition assign_status :: "any option \<Rightarrow> Workflow \<Rightarrow> Workflow" where
  "assign_status u workflow =
     (case u of Some (AWorkflowStatus status) \<Rightarrow> workflow\<lparr>Status := status\<rparr> | _ \<Rightarrow> workflow)"

definition assign_started_at :: "any option \<Rightarrow> Workflow \<Rightarrow> Workflow" where
  "assign_started_at u workflow =
     (case u of Some (AString startedAt) \<Rightarrow> workflow\<lparr>StartedAt := startedAt\<rparr> | _ \<Rightarrow> workflow)"

definition assign_completed_at :: "any option \<Rightarrow> Workflow \<Rightarrow> Workflow" where
  "assign_completed_at u workflow =
     (case u of Some (AString completedAt) \<Rightarrow> workflow\<lparr>CompletedAt := completedAt\<rparr>
              | _ \<Rightarrow> workflow)"

definition apply_updates :: "(string \<rightharpoonup> any) \<Rightarrow> Workflow \<Rightarrow> Workflow" where
  "apply_updates updates workflow =
     assign_completed_at (updates ''completed_at'')
       (assign_started_at (updates ''started_at'')
          (assign_status (updates ''status'')
             (assign_name (updates ''name'') workflow)))"

definition updateWorkflow ::
  "string \<Rightarrow> (string \<rightharpoonup> any) \<Rightarrow> 'd world \<Rightarrow> (string + Workflow option) \<times> 'd world" where
  "updateWorkflow workflowID updates w =
     (case getAllWorkflows w of
        (Inl err, w1) \<Rightarrow> (Inl err, w1)
      | (Inr workflows, w1) \<Rightarrow>
          (case workflows workflowID of
             None \<Rightarrow> (Inr None, w1)
           | Some workflow \<Rightarrow>
               (let workflow' = apply_updates updates workflow
                in case saveWorkflows (workflows(workflowID \<mapsto> workflow')) w1 of
                     (Some err, w2) \<Rightarrow> (Inl err, w2)
                   | (None, w2) \<Rightarrow> (Inr (Some workflow'), w2))))"

section \<open>Workflow service: the handlers\<close>

text \<open>
  \<^verbatim>\<open>http.Post(url, "application/json", body)\<close> against the device API: a transport error
  (\<open>Inl\<close>) or a response, and the new state of the device service. The handlers take it as
  a parameter, with \<^verbatim>\<open>deviceAPIURL\<close> and the reading of the clock
  (\<^verbatim>\<open>time.Now().UTC().Format(time.RFC3339)\<close>).
\<close>

type_synonym 'd poster =
  "string \<Rightarrow> device_request \<Rightarrow> 'd \<Rightarrow> (string + http_response) \<times> 'd"

text \<open>
  \<^verbatim>\<open>c.ShouldBindJSON(&req)\<close> for \<^verbatim>\<open>CreateWorkflowRequest\<close>: \<open>None\<close> is a body that does not
  decode; \<^verbatim>\<open>binding:"required"\<close> refuses an empty \<^verbatim>\<open>name\<close> or \<^verbatim>\<open>device_id\<close>.
\<close>

definition bind_CreateWorkflowRequest ::
  "CreateWorkflowRequest option \<Rightarrow> string + CreateWorkflowRequest" where
  "bind_CreateWorkflowRequest b =
     (case b of
        None \<Rightarrow> Inl ''invalid request''
      | Some req \<Rightarrow>
          if req_Name req = [] then Inl ''Name is required''
          else if req_DeviceID req = [] then Inl ''DeviceID is required''
          else Inr req)"

definition createWorkflowHandler ::
  "string \<Rightarrow> CreateWorkflowRequest option \<Rightarrow> 'd world \<Rightarrow> outcome \<times> 'd world" where
  "createWorkflowHandler now b w =
     (case bind_CreateWorkflowRequest b of
        Inl err \<Rightarrow> (Reply (Response 400 (H_error ''name and device_id are required'')), w)
      | Inr req \<Rightarrow>
          (case uuid_New w of
             None \<Rightarrow> (Panic ''uuid: random source failed'', w)
           | Some (workflowID, w0) \<Rightarrow>
               (let workflow = \<lparr>ID = workflowID, Name = req_Name req, DeviceID = req_DeviceID req,
                                SampleBarcodes = req_SampleBarcodes req, Steps = req_Steps req,
                                Status = StatusCreated, CreatedAt = now,
                                StartedAt = [], CompletedAt = []\<rparr>
                in case getAllWorkflows w0 of
                     (Inl err, w1) \<Rightarrow>
                       (Reply (Response 500 (H_error ''Failed to create workflow'')), w1)
                   | (Inr workflows, w1) \<Rightarrow>
                       (case saveWorkflows (workflows(workflowID \<mapsto> workflow)) w1 of
                          (Some err, w2) \<Rightarrow>
                            (Reply (Response 500 (H_error ''Failed to create workflow'')), w2)
                        | (None, w2) \<Rightarrow>
                            (Reply (Response 201 (J_workflow (Some workflow))), w2)))))"

text \<open>
  After the update, \<^verbatim>\<open>workflow, _ = getWorkflow(workflowID)\<close> drops the error: a failed
  re-read replies 200 with a nil workflow.
\<close>

definition reread :: "string \<Rightarrow> 'd world \<Rightarrow> outcome \<times> 'd world" where
  "reread workflowID w =
     (case getWorkflow workflowID w of
        (Inl err, w1) \<Rightarrow> (Reply (Response 200 (J_workflow None)), w1)
      | (Inr workflow, w1) \<Rightarrow> (Reply (Response 200 (J_workflow workflow)), w1))"

definition startWorkflowHandler ::
  "'d poster \<Rightarrow> string \<Rightarrow> string \<Rightarrow> string \<Rightarrow> 'd world \<Rightarrow> outcome \<times> 'd world" where
  "startWorkflowHandler post deviceAPIURL now workflowID w =
     (case getWorkflow workflowID w of
        (Inl err, w1) \<Rightarrow> (Reply (Response 500 (H_error ''Failed to retrieve workflow'')), w1)
      | (Inr None, w1) \<Rightarrow> (Reply (Response 404 (H_error ''Workflow not found'')), w1)
      | (Inr (Some workflow), w1) \<Rightarrow>
          if Status workflow \<noteq> StatusCreated
          then (Reply (Response 400 (H_error ''Workflow already started or completed'')), w1)
          else
            (let deviceID = DeviceID workflow;
                 bookURL = deviceAPIURL @ ''/device/'' @ deviceID @ ''/reserve'';
                 bookBody = BookDeviceRequest workflowID
             in case post bookURL bookBody (device_service w1) of
                  (Inl err, d) \<Rightarrow>
                    (Reply (Response 500
                       (H_error (''Failed to communicate with device service: '' @ err))),
                     w1\<lparr>device_service := d\<rparr>)
                | (Inr resp, d) \<Rightarrow>
                    if StatusCode resp \<noteq> 200
                    then (Reply (Response (StatusCode resp)
                            (H_error_details ''Failed to book device'' (unmarshal_map (Body resp)))),
                          w1\<lparr>device_service := d\<rparr>)
                    else
                      (case updateWorkflow workflowID
                              [''status'' \<mapsto> AWorkflowStatus StatusRunning,
                               ''started_at'' \<mapsto> AString now]
                              (w1\<lparr>device_service := d\<rparr>) of
                         (Inl err, w2) \<Rightarrow>
                           (Reply (Response 500 (H_error ''Failed to update workflow'')), w2)
                       | (Inr u, w2) \<Rightarrow> reread workflowID w2)))"

definition completeWorkflowHandler ::
  "'d poster \<Rightarrow> string \<Rightarrow> string \<Rightarrow> string \<Rightarrow> 'd world \<Rightarrow> outcome \<times> 'd world" where
  "completeWorkflowHandler post deviceAPIURL now workflowID w =
     (case getWorkflow workflowID w of
        (Inl err, w1) \<Rightarrow> (Reply (Response 500 (H_error ''Failed to retrieve workflow'')), w1)
      | (Inr None, w1) \<Rightarrow> (Reply (Response 404 (H_error ''Workflow not found'')), w1)
      | (Inr (Some workflow), w1) \<Rightarrow>
          if Status workflow \<noteq> StatusRunning
          then (Reply (Response 400 (H_error ''Workflow is not running'')), w1)
          else
            (let deviceID = DeviceID workflow;
                 releaseURL = deviceAPIURL @ ''/devices/'' @ deviceID @ ''/release'';
                 releaseBody = ReleaseDeviceRequest workflowID
             in case post releaseURL releaseBody (device_service w1) of
                  (Inl err, d) \<Rightarrow>
                    (Reply (Response 500
                       (H_error (''Failed to communicate with device service: '' @ err))),
                     w1\<lparr>device_service := d\<rparr>)
                | (Inr resp, d) \<Rightarrow>
                    if StatusCode resp \<noteq> 200
                    then (Reply (Response (StatusCode resp)
                            (H_error_details ''Failed to release device''
                               (unmarshal_map (Body resp)))),
                          w1\<lparr>device_service := d\<rparr>)
                    else
                      (case updateWorkflow workflowID
                              [''status'' \<mapsto> AWorkflowStatus StatusCompleted,
                               ''completed_at'' \<mapsto> AString now]
                              (w1\<lparr>device_service := d\<rparr>) of
                         (Inl err, w2) \<Rightarrow>
                           (Reply (Response 500 (H_error ''Failed to update workflow'')), w2)
                       | (Inr u, w2) \<Rightarrow> reread workflowID w2)))"

text \<open>
  The body of an execute-step request: \<open>Unparsable\<close> makes \<^verbatim>\<open>ShouldBindJSON\<close> fail (no body,
  malformed JSON, a \<^verbatim>\<open>step_index\<close> that is not an integer); \<open>Parsed None\<close> is an object
  without \<^verbatim>\<open>step_index\<close>, which leaves the zero value; \<open>Parsed (Some i)\<close> is an object
  whose \<^verbatim>\<open>step_index\<close> is the integer \<open>i\<close>. \<^verbatim>\<open>StepIndex\<close> is a Go \<^verbatim>\<open>int\<close> (64 bits): an
  integer outside its range does not bind, and \<^verbatim>\<open>ShouldBindJSON\<close> returns an error.
\<close>

datatype execute_step_body = Unparsable | Parsed "int option"

definition bind_ExecuteStepRequest :: "execute_step_body \<Rightarrow> string + int" where
  "bind_ExecuteStepRequest b =
     (case b of
        Unparsable \<Rightarrow> Inl ''invalid request''
      | Parsed None \<Rightarrow> Inr 0
      | Parsed (Some i) \<Rightarrow>
          if - (2 ^ 63) \<le> i \<and> i < 2 ^ 63 then Inr i
          else Inl ''cannot unmarshal number into Go struct field StepIndex of type int'')"

text \<open>
  \<^verbatim>\<open>steps[i]\<close> on a Go slice: a run-time panic unless \<open>0 \<le> i < len(steps)\<close>.
\<close>

definition index_steps :: "string list \<Rightarrow> int \<Rightarrow> string option" where
  "index_steps steps i =
     (if 0 \<le> i \<and> i < int (length steps) then Some (steps ! nat i) else None)"

definition executeStepHandler ::
  "'d poster \<Rightarrow> string \<Rightarrow> execute_step_body \<Rightarrow> string \<Rightarrow> 'd world \<Rightarrow> outcome \<times> 'd world" where
  "executeStepHandler post deviceAPIURL b workflowID w =
     (case getWorkflow workflowID w of
        (Inl err, w1) \<Rightarrow> (Reply (Response 500 (H_error ''Failed to retrieve workflow'')), w1)
      | (Inr None, w1) \<Rightarrow> (Reply (Response 404 (H_error ''Workflow not found'')), w1)
      | (Inr (Some workflow), w1) \<Rightarrow>
          if Status workflow \<noteq> StatusRunning
          then (Reply (Response 400 (H_error ''Workflow is not running'')), w1)
          else
            (let StepIndex = (case bind_ExecuteStepRequest b of Inl err \<Rightarrow> 0 | Inr i \<Rightarrow> i);
                 steps = Steps workflow
             in if StepIndex \<ge> int (length steps)
                then (Reply (Response 400 (H_error ''Invalid step index'')), w1)
                else
                  (case index_steps steps StepIndex of
                     None \<Rightarrow> (Panic ''runtime error: index out of range'', w1)
                   | Some step \<Rightarrow>
                       (let deviceID = DeviceID workflow;
                            executeURL = deviceAPIURL @ ''/devices/'' @ deviceID @ ''/execute'';
                            executeBody = ExecuteDeviceRequest workflowID step
                        in case post executeURL executeBody (device_service w1) of
                             (Inl err, d) \<Rightarrow>
                               (Reply (Response 500
                                  (H_error (''Failed to communicate with device service: '' @ err))),
                                w1\<lparr>device_service := d\<rparr>)
                           | (Inr resp, d) \<Rightarrow>
                               if StatusCode resp \<noteq> 200
                               then (Reply (Response (StatusCode resp)
                                       (H_error_details ''Failed to execute step''
                                          (unmarshal_map (Body resp)))),
                                     w1\<lparr>device_service := d\<rparr>)
                               else (Reply (Response 200
                                       (J_step workflowID StepIndex step
                                          (unmarshal_map (Body resp)))),
                                     w1\<lparr>device_service := d\<rparr>)))))"

text \<open>The errors of the specification, as the handlers reply them.\<close>

definition InvalidStateError_start :: "outcome \<Rightarrow> bool" where
  "InvalidStateError_start out =
     (out = Reply (Response 400 (H_error ''Workflow already started or completed'')))"

definition InvalidStateError_not_running :: "outcome \<Rightarrow> bool" where
  "InvalidStateError_not_running out =
     (out = Reply (Response 400 (H_error ''Workflow is not running'')))"

definition IndexError :: "outcome \<Rightarrow> bool" where
  "IndexError out = (out = Reply (Response 400 (H_error ''Invalid step index'')))"

fun DependencyError :: "outcome \<Rightarrow> bool" where
  "DependencyError (Reply (Response c (H_error msg))) =
     (c = 500 \<and> take 43 msg = ''Failed to communicate with device service: '')"
| "DependencyError out = False"

fun BookingRejectedError :: "outcome \<Rightarrow> bool" where
  "BookingRejectedError (Reply (Response c (H_error_details msg details))) =
     (c \<noteq> 200 \<and> msg = ''Failed to book device'')"
| "BookingRejectedError out = False"

section \<open>Device service\<close>

record Device =
  dev_ID :: string
  dev_Name :: string
  dev_Type :: string
  dev_Status :: string
  dev_Capabilities :: "string list"
  dev_WorkflowID :: string

definition DEVICES :: "string \<rightharpoonup> Device" where
  "DEVICES = map_of
     [(''liquid-handler-1'',
         \<lparr>dev_ID = ''liquid-handler-1'', dev_Name = ''Liquid Handler Alpha'',
          dev_Type = ''liquid_handler'', dev_Status = ''available'',
          dev_Capabilities = [''pipette'', ''dispense'', ''aspirate''], dev_WorkflowID = []\<rparr>),
      (''incubator-1'',
         \<lparr>dev_ID = ''incubator-1'', dev_Name = ''Incubator Beta'',
          dev_Type = ''incubator'', dev_Status = ''available'',
          dev_Capabilities = [''heat'', ''cool'', ''shake''], dev_WorkflowID = []\<rparr>),
      (''plate-reader-1'',
         \<lparr>dev_ID = ''plate-reader-1'', dev_Name = ''Plate Reader Gamma'',
          dev_Type = ''plate_reader'', dev_Status = ''available'',
          dev_Capabilities = [''absorbance'', ''fluorescence''], dev_WorkflowID = []\<rparr>)]"

text \<open>
  The device service's Redis: \<open>status_key\<close> holds the keys \<^verbatim>\<open>device:<id>:status\<close> and
  \<open>workflow_key\<close> the keys \<^verbatim>\<open>device:<id>:workflow\<close> (the reservation), each by device
  identifier. \<open>dev_faults\<close> lists the outcomes of the commands to come, as in the workflow
  service.
\<close>

record device_store =
  dev_faults :: "bool list"
  status_key :: "string \<rightharpoonup> string"
  workflow_key :: "string \<rightharpoonup> string"

definition dev_command :: "device_store \<Rightarrow> bool \<times> device_store" where
  "dev_command d =
     (case dev_faults d of
        [] \<Rightarrow> (False, d)
      | f # fs \<Rightarrow> (f, d\<lparr>dev_faults := fs\<rparr>))"

text \<open>
  \<^verbatim>\<open>redisClient.Get(...).Result()\<close> where the caller only tests \<^verbatim>\<open>err == nil\<close>: \<open>None\<close> is
  any error, a missing key (\<^verbatim>\<open>redis.Nil\<close>) as well as a failed command.
\<close>

definition get_status_key :: "string \<Rightarrow> device_store \<Rightarrow> string option \<times> device_store" where
  "get_status_key deviceID d =
     (case dev_command d of
        (True, d1) \<Rightarrow> (None, d1)
      | (False, d1) \<Rightarrow> (status_key d1 deviceID, d1))"

definition get_workflow_key :: "string \<Rightarrow> device_store \<Rightarrow> string option \<times> device_store" where
  "get_workflow_key deviceID d =
     (case dev_command d of
        (True, d1) \<Rightarrow> (None, d1)
      | (False, d1) \<Rightarrow> (workflow_key d1 deviceID, d1))"

definition getDeviceStatus :: "string \<Rightarrow> device_store \<Rightarrow> string \<times> device_store" where
  "getDeviceStatus deviceID d =
     (case get_status_key deviceID d of
        (Some cached, d1) \<Rightarrow> (cached, d1)
      | (None, d1) \<Rightarrow>
          (case DEVICES deviceID of
             Some device \<Rightarrow> (dev_Status device, d1)
           | None \<Rightarrow> (''unknown'', d1)))"

text \<open>\<^verbatim>\<open>setDeviceStatus\<close> issues two commands and ignores their errors.\<close>

definition setDeviceStatus ::
  "string \<Rightarrow> string \<Rightarrow> string option \<Rightarrow> device_store \<Rightarrow> device_store" where
  "setDeviceStatus deviceID status workflowID d =
     (let d2 = (case dev_command d of
                  (True, d1) \<Rightarrow> d1
                | (False, d1) \<Rightarrow> d1\<lparr>status_key := (status_key d1)(deviceID \<mapsto> status)\<rparr>)
      in case dev_command d2 of
           (True, d3) \<Rightarrow> d3
         | (False, d3) \<Rightarrow>
             (case workflowID of
                None \<Rightarrow> d3\<lparr>workflow_key := (workflow_key d3)(deviceID := None)\<rparr>
              | Some wid \<Rightarrow>
                  if wid \<noteq> []
                  then d3\<lparr>workflow_key := (workflow_key d3)(deviceID \<mapsto> wid)\<rparr>
                  else d3\<lparr>workflow_key := (workflow_key d3)(deviceID := None)\<rparr>))"

text \<open>
  \<^verbatim>\<open>ShouldBindJSON\<close> for the three request structs of the device service. The argument is
  what the JSON decoder made of the body: \<open>None\<close> when it returned an error, otherwise the
  fields of the decoded struct (a field the body has no member for is the empty string).
  \<^verbatim>\<open>BookRequest\<close> and \<^verbatim>\<open>ExecuteRequest\<close> mark their fields \<^verbatim>\<open>binding:"required"\<close>, which
  the validator refuses when empty (the error texts stand for the validator's messages);
  \<^verbatim>\<open>ReleaseRequest\<close> has no such tag, so an empty \<^verbatim>\<open>WorkflowID\<close> binds.
\<close>

definition bind_BookRequest :: "string option \<Rightarrow> string + string" where
  "bind_BookRequest decoded =
     (case decoded of
        None \<Rightarrow> Inl ''invalid request''
      | Some WorkflowID \<Rightarrow>
          if WorkflowID = [] then Inl ''WorkflowID is required'' else Inr WorkflowID)"

definition bind_ReleaseRequest :: "string option \<Rightarrow> string + string" where
  "bind_ReleaseRequest decoded =
     (case decoded of
        None \<Rightarrow> Inl ''invalid request''
      | Some WorkflowID \<Rightarrow> Inr WorkflowID)"

definition bind_ExecuteRequest :: "(string \<times> string) option \<Rightarrow> string + (string \<times> string)" where
  "bind_ExecuteRequest decoded =
     (case decoded of
        None \<Rightarrow> Inl ''invalid request''
      | Some (WorkflowID, Operation) \<Rightarrow>
          if WorkflowID = [] then Inl ''WorkflowID is required''
          else if Operation = [] then Inl ''Operation is required''
          else Inr (WorkflowID, Operation))"

definition error_body :: "string \<Rightarrow> wire" where
  "error_body msg = Object [(''error'', msg)]"

definition bookDeviceHandler ::
  "string \<Rightarrow> string \<Rightarrow> string option \<Rightarrow> device_store \<Rightarrow> http_response \<times> device_store" where
  "bookDeviceHandler now deviceID b d =
     (if DEVICES deviceID = None
      then (\<lparr>StatusCode = 404, Body = error_body ''Device not found''\<rparr>, d)
      else
        (case bind_BookRequest b of
           Inl err \<Rightarrow> (\<lparr>StatusCode = 400, Body = error_body ''workflow_id required''\<rparr>, d)
         | Inr WorkflowID \<Rightarrow>
             (case getDeviceStatus deviceID d of
                (currentStatus, d1) \<Rightarrow>
                  if currentStatus \<noteq> ''available''
                  then (\<lparr>StatusCode = 409, Body = error_body ''Device is not available''\<rparr>, d1)
                  else
                    (\<lparr>StatusCode = 200,
                      Body = Object [(''device_id'', deviceID), (''status'', ''busy''),
                                     (''workflow_id'', WorkflowID), (''booked_at'', now)]\<rparr>,
                     setDeviceStatus deviceID ''busy'' (Some WorkflowID) d1))))"

definition releaseDeviceHandler ::
  "string \<Rightarrow> string \<Rightarrow> string option \<Rightarrow> device_store \<Rightarrow> http_response \<times> device_store" where
  "releaseDeviceHandler now deviceID b d =
     (if DEVICES deviceID = None
      then (\<lparr>StatusCode = 404, Body = error_body ''Device not found''\<rparr>, d)
      else
        (let WorkflowID = (case bind_ReleaseRequest b of Inl err \<Rightarrow> [] | Inr wid \<Rightarrow> wid)
         in case get_workflow_key deviceID d of
              (Some currentWorkflow, d1) \<Rightarrow>
                if currentWorkflow \<noteq> WorkflowID \<and> WorkflowID \<noteq> []
                then (\<lparr>StatusCode = 403,
                       Body = error_body ''Device is booked by another workflow''\<rparr>, d1)
                else
                  (\<lparr>StatusCode = 200,
                    Body = Object [(''device_id'', deviceID), (''status'', ''available''),
                                   (''released_at'', now)]\<rparr>,
                   setDeviceStatus deviceID ''available'' None d1)
            | (None, d1) \<Rightarrow>
                (\<lparr>StatusCode = 200,
                  Body = Object [(''device_id'', deviceID), (''status'', ''available''),
                                 (''released_at'', now)]\<rparr>,
                 setDeviceStatus deviceID ''available'' None d1)))"

definition executeOperationHandler ::
  "string \<Rightarrow> string \<Rightarrow> (string \<times> string) option \<Rightarrow> device_store
     \<Rightarrow> http_response \<times> device_store" where
  "executeOperationHandler now deviceID b d =
     (if DEVICES deviceID = None
      then (\<lparr>StatusCode = 404, Body = error_body ''Device not found''\<rparr>, d)
      else
        (case bind_ExecuteRequest b of
           Inl err \<Rightarrow> (\<lparr>StatusCode = 400, Body = error_body err\<rparr>, d)
         | Inr (WorkflowID, Operation) \<Rightarrow>
             (case get_workflow_key deviceID d of
                (currentWorkflow, d1) \<Rightarrow>
                  if currentWorkflow \<noteq> Some WorkflowID
                  then (\<lparr>StatusCode = 403,
                         Body = error_body ''Device not booked by this workflow''\<rparr>, d1)
                  else
                    (\<lparr>StatusCode = 200,
                      Body = Object [(''device_id'', deviceID), (''operation'', Operation),
                                     (''status'', ''completed''), (''executed_at'', now)]\<rparr>,
                     d1))))"

text \<open>
  The POST routes of the device service's router:
  \<^verbatim>\<open>/devices/:device_id/book\<close>, \<^verbatim>\<open>/devices/:device_id/release\<close> and
  \<^verbatim>\<open>/devices/:device_id/execute\<close>. A path parameter is one non-empty segment; a path
  with no route gets the router's 404 page. The paths are those of URLs without query,
  fragment or percent-escape. The body is one the workflow service posted; the JSON
  decoder binds its member \<^verbatim>\<open>workflow_id\<close> (and \<^verbatim>\<open>operation\<close>, empty when the body has
  none) to the handler's request struct and ignores a member the struct lacks.
\<close>

fun posted_workflow_id :: "device_request \<Rightarrow> string" where
  "posted_workflow_id (BookDeviceRequest WorkflowID) = WorkflowID"
| "posted_workflow_id (ReleaseDeviceRequest WorkflowID) = WorkflowID"
| "posted_workflow_id (ExecuteDeviceRequest WorkflowID Operation) = WorkflowID"

fun posted_operation :: "device_request \<Rightarrow> string" where
  "posted_operation (BookDeviceRequest WorkflowID) = []"
| "posted_operation (ReleaseDeviceRequest WorkflowID) = []"
| "posted_operation (ExecuteDeviceRequest WorkflowID Operation) = Operation"

fun split_path :: "string \<Rightarrow> string list" where
  "split_path [] = [] # []"
| "split_path (c # cs) =
     (if c = CHR ''/'' then [] # split_path cs
      else (case split_path cs of
              [] \<Rightarrow> [c] # []
            | s # ss \<Rightarrow> (c # s) # ss))"

definition not_found_page :: http_response where
  "not_found_page = \<lparr>StatusCode = 404, Body = Text ''404 page not found''\<rparr>"

definition device_router_POST ::
  "string \<Rightarrow> string \<Rightarrow> device_request \<Rightarrow> device_store \<Rightarrow> http_response \<times> device_store" where
  "device_router_POST now path b d =
     (let segs = split_path path
      in if length segs = 4 \<and> segs ! 0 = [] \<and> segs ! 1 = ''devices'' \<and> segs ! 2 \<noteq> []
         then
           (if segs ! 3 = ''book''
            then bookDeviceHandler now (segs ! 2) (Some (posted_workflow_id b)) d
            else if segs ! 3 = ''release''
            then releaseDeviceHandler now (segs ! 2) (Some (posted_workflow_id b)) d
            else if segs ! 3 = ''execute''
            then executeOperationHandler now (segs ! 2)
                   (Some (posted_workflow_id b, posted_operation b)) d
            else (not_found_page, d))
         else (not_found_page, d))"

text \<open>
  The workflow service's \<^verbatim>\<open>http.Post\<close> when \<^verbatim>\<open>DEVICE_API_URL\<close> is the address \<open>base\<close> of this
  device service: a URL under \<open>base\<close> reaches the router with the rest as its path; any
  other URL fails in the transport.
\<close>

definition device_api :: "string \<Rightarrow> string \<Rightarrow> device_store poster" where
  "device_api base now url b d =
     (if take (length base) url = base
      then (case device_router_POST now (drop (length base) url) b d of
              (resp, d1) \<Rightarrow> (Inr resp, d1))
      else (Inl ''dial tcp: lookup failed'', d))"

section \<open>Sample service\<close>

record Location =
  Plate :: string
  Well :: string

record Sample =
  Barcode :: string
  sample_Name :: string
  sample_Type :: string
  sample_Location :: Location
  sample_CreatedAt :: string
  sample_UpdatedAt :: string

record ValidationResult =
  result_Barcode :: string
  Exists :: bool

record sample_store =
  sample_faults :: "bool list"
  samples_key :: "(string \<rightharpoonup> Sample) option"

definition sample_command :: "sample_store \<Rightarrow> bool \<times> sample_store" where
  "sample_command s =
     (case sample_faults s of
        [] \<Rightarrow> (False, s)
      | f # fs \<Rightarrow> (f, s\<lparr>sample_faults := fs\<rparr>))"

definition getAllSamples :: "sample_store \<Rightarrow> (string + (string \<rightharpoonup> Sample)) \<times> sample_store" where
  "getAllSamples s =
     (case sample_command s of
        (True, s1) \<Rightarrow> (Inl ''redis: command failed'', s1)
      | (False, s1) \<Rightarrow>
          (case samples_key s1 of
             None \<Rightarrow> (Inr Map.empty, s1)
           | Some samples \<Rightarrow> (Inr samples, s1)))"

text \<open>The stored sample collection: what is under \<^verbatim>\<open>SAMPLES_KEY\<close>, empty when the key is missing.\<close>

definition stored_samples :: "sample_store \<Rightarrow> (string \<rightharpoonup> Sample)" where
  "stored_samples s = (case samples_key s of None \<Rightarrow> Map.empty | Some samples \<Rightarrow> samples)"

text \<open>
  \<^verbatim>\<open>ShouldBindJSON\<close> for \<^verbatim>\<open>ValidateRequest\<close>: \<open>None\<close> is a body that does not decode,
  \<open>Some None\<close> one without a \<^verbatim>\<open>barcodes\<close> array (a nil slice, which
  \<^verbatim>\<open>binding:"required"\<close> refuses), \<open>Some (Some bs)\<close> one that carries the list \<open>bs\<close>.
\<close>

definition bind_ValidateRequest :: "string list option option \<Rightarrow> string + string list" where
  "bind_ValidateRequest b =
     (case b of
        None \<Rightarrow> Inl ''invalid request''
      | Some None \<Rightarrow> Inl ''Barcodes is required''
      | Some (Some barcodes) \<Rightarrow> Inr barcodes)"

text \<open>
  The loop \<^verbatim>\<open>for i, barcode := range req.Barcodes { results[i] = ... }\<close> over the slice
  made by \<^verbatim>\<open>make([]ValidationResult, len(req.Barcodes))\<close>: \<open>i\<close> is the index reached and
  the list argument what is left of the range.
\<close>

fun validate_loop ::
  "(string \<rightharpoonup> Sample) \<Rightarrow> nat \<Rightarrow> string list \<Rightarrow> ValidationResult list \<Rightarrow> ValidationResult list"
  where
  "validate_loop samples i [] results = results"
| "validate_loop samples i (barcode # rest) results =
     validate_loop samples (Suc i) rest
       (results[i := \<lparr>result_Barcode = barcode, Exists = (samples barcode \<noteq> None)\<rparr>])"

datatype sample_reply =
    Sample_error nat string
  | Validation_results nat "ValidationResult list"

definition validateSamplesHandler ::
  "string list option option \<Rightarrow> sample_store \<Rightarrow> sample_reply \<times> sample_store" where
  "validateSamplesHandler b s =
     (case bind_ValidateRequest b of
        Inl err \<Rightarrow> (Sample_error 400 ''barcodes array is required'', s)
      | Inr barcodes \<Rightarrow>
          (case getAllSamples s of
             (Inl err, s1) \<Rightarrow> (Sample_error 500 ''Failed to retrieve samples'', s1)
           | (Inr samples, s1) \<Rightarrow>
               (let results = replicate (length barcodes)
                                \<lparr>result_Barcode = [], Exists = False\<rparr>
                in (Validation_results 200 (validate_loop samples 0 barcodes results), s1))))"

section \<open>Runs of the workflow service\<close>

text \<open>
  The requests the coordinator serves, each with what the environment supplies while it
  is handled (the reading of the clock, the body), and the service handling a sequence of
  them one after the other. A panic is recovered by the router's \<^verbatim>\<open>Recovery\<close>
  middleware (\<^verbatim>\<open>gin.Default()\<close>), so the service goes on with the next request.
\<close>

datatype request =
    Create string "CreateWorkflowRequest option"
  | Start string string
  | Complete string string
  | ExecuteStep execute_step_body string

fun handle :: "'d poster \<Rightarrow> string \<Rightarrow> request \<Rightarrow> 'd world \<Rightarrow> outcome \<times> 'd world" where
  "handle post deviceAPIURL (Create now b) w = createWorkflowHandler now b w"
| "handle post deviceAPIURL (Start now workflowID) w =
     startWorkflowHandler post deviceAPIURL now workflowID w"
| "handle post deviceAPIURL (Complete now workflowID) w =
     completeWorkflowHandler post deviceAPIURL now workflowID w"
| "handle post deviceAPIURL (ExecuteStep b workflowID) w =
     executeStepHandler post deviceAPIURL b workflowID w"

fun run :: "'d poster \<Rightarrow> string \<Rightarrow> request list \<Rightarrow> 'd world \<Rightarrow> 'd world" where
  "run post deviceAPIURL [] w = w"
| "run post deviceAPIURL (r # rs) w = run post deviceAPIURL rs (snd (handle post deviceAPIURL r w))"

text \<open>The workflows that the Create requests of a run returned with 201, oldest first.\<close>

fun created_by :: "request \<Rightarrow> outcome \<Rightarrow> Workflow list" where
  "created_by (Create now b) (Reply (Response c (J_workflow (Some workflow)))) =
     (if c = 201 then [workflow] else [])"
| "created_by r out = []"

fun created :: "'d poster \<Rightarrow> string \<Rightarrow> request list \<Rightarrow> 'd world \<Rightarrow> Workflow list" where
  "created post deviceAPIURL [] w = []"
| "created post deviceAPIURL (r # rs) w =
     created_by r (fst (handle post deviceAPIURL r w))
       @ created post deviceAPIURL rs (snd (handle post deviceAPIURL r w))"

text \<open>The stored collection, as \<^verbatim>\<open>getAllWorkflows\<close> reads it when the command succeeds.\<close>

definition stored :: "'d world \<Rightarrow> (string \<rightharpoonup> Workflow)" where
  "stored w = (case workflows_key w of None \<Rightarrow> Map.empty | Some workflows \<Rightarrow> workflows)"

text \<open>The clock never reads as the empty string (an RFC 3339 timestamp has 20 characters or more).\<close>

fun clock_read :: "request \<Rightarrow> bool" where
  "clock_read (Create now b) = (now \<noteq> [])"
| "clock_read (Start now workflowID) = (now \<noteq> [])"
| "clock_read (Complete now workflowID) = (now \<noteq> [])"
| "clock_read (ExecuteStep b workflowID) = True"

text \<open>The invariant of the data model on one record.\<close>

definition timestamps_match_status :: "Workflow \<Rightarrow> bool" where
  "timestamps_match_status workflow =
     ((StartedAt workflow \<noteq> []) = (Status workflow = StatusRunning \<or> Status workflow = StatusCompleted)
      \<and> (CompletedAt workflow \<noteq> []) = (Status workflow = StatusCompleted))"

section \<open>Concrete states and requests\<close>

definition pcr_run :: Workflow where
  "pcr_run = \<lparr>ID = ''wf-1'', Name = ''PCR Run'', DeviceID = ''liquid-handler-1'',
              SampleBarcodes = [''SAMPLE001''], Steps = [''pipette'', ''heat''],
              Status = StatusCreated, CreatedAt = ''2025-01-15T10:00:00Z'',
              StartedAt = [], CompletedAt = []\<rparr>"

definition pcr_running :: Workflow where
  "pcr_running = pcr_run\<lparr>Status := StatusRunning, StartedAt := ''2025-01-15T10:01:00Z''\<rparr>"

definition pcr_request :: CreateWorkflowRequest where
  "pcr_request = \<lparr>req_Name = ''PCR Run'', req_DeviceID = ''liquid-handler-1'',
                  req_SampleBarcodes = [''SAMPLE001''], req_Steps = [''pipette'', ''heat'']\<rparr>"

text \<open>The device store after \<^verbatim>\<open>initializeDevices\<close>: every device available, none reserved.\<close>

definition devices_idle :: device_store where
  "devices_idle = \<lparr>dev_faults = [],
                   status_key = [''liquid-handler-1'' \<mapsto> ''available'',
                                 ''incubator-1'' \<mapsto> ''available'',
                                 ''plate-reader-1'' \<mapsto> ''available''],
                   workflow_key = Map.empty\<rparr>"

text \<open>The liquid handler reserved by workflow \<open>wf-1\<close>.\<close>

definition devices_booked :: device_store where
  "devices_booked = \<lparr>dev_faults = [],
                     status_key = [''liquid-handler-1'' \<mapsto> ''busy'',
                                   ''incubator-1'' \<mapsto> ''available'',
                                   ''plate-reader-1'' \<mapsto> ''available''],
                     workflow_key = [''liquid-handler-1'' \<mapsto> ''wf-1'']\<rparr>"

definition fresh_world :: "device_store world" where
  "fresh_world = \<lparr>redis_faults = [], workflows_key = None,
                  uuid_source = [''wf-1'', ''wf-2''], device_service = devices_idle\<rparr>"

definition world_created :: "device_store world" where
  "world_created = \<lparr>redis_faults = [], workflows_key = Some [''wf-1'' \<mapsto> pcr_run],
                    uuid_source = [''wf-2''], device_service = devices_idle\<rparr>"

definition world_running :: "device_store world" where
  "world_running = \<lparr>redis_faults = [], workflows_key = Some [''wf-1'' \<mapsto> pcr_running],
                    uuid_source = [''wf-2''], device_service = devices_booked\<rparr>"

definition api_url :: string where
  "api_url = ''http://device-service:5001''"

definition the_device_api :: "device_store poster" where
  "the_device_api = device_api api_url ''2025-01-15T10:01:00Z''"

definition sample_A :: Sample where
  "sample_A = \<lparr>Barcode = ''SAMPLE001'', sample_Name = ''Blood Sample A'', sample_Type = ''blood'',
               sample_Location = \<lparr>Plate = ''PLATE-01'', Well = ''A1''\<rparr>,
               sample_CreatedAt = ''2025-01-15T10:00:00Z'', sample_UpdatedAt = []\<rparr>"

definition sample_collection :: "string \<rightharpoonup> Sample" where
  "sample_collection = [''SAMPLE001'' \<mapsto> sample_A]"

definition samples_one :: sample_store where
  "samples_one = \<lparr>sample_faults = [], samples_key = Some sample_collection\<rparr>"

definition start_updates :: "string \<rightharpoonup> any" where
  "start_updates = [''status'' \<mapsto> AWorkflowStatus StatusRunning,
                    ''started_at'' \<mapsto> AString ''2025-01-15T10:01:00Z'']"

text \<open>
  A device service that grants every request, for runs of the coordinator alone, and a
  run through the whole lifecycle against it.
\<close>

definition granting_api :: "device_store poster" where
  "granting_api url b d = (Inr \<lparr>StatusCode = 200, Body = Object [(''status'', ''ok'')]\<rparr>, d)"

definition lifecycle :: "request list" where
  "lifecycle = [Create ''2025-01-15T10:00:00Z'' (Some pcr_request),
                Start ''2025-01-15T10:01:00Z'' ''wf-1'',
                ExecuteStep (Parsed (Some 0)) ''wf-1'',
                Complete ''2025-01-15T10:09:00Z'' ''wf-1'']"

definition pcr_completed :: Workflow where
  "pcr_completed = pcr_running\<lparr>Status := StatusCompleted, CompletedAt := ''2025-01-15T10:09:00Z''\<rparr>"

definition one_create :: "request list" where
  "one_create = [Create ''2025-01-15T10:00:00Z'' (Some pcr_request)]"

definition release_by_other :: "string option" where
  "release_by_other = Some ''wf-2''"

section \<open>The state store: what each operation does to the stored collection\<close>

lemmas status_defs = StatusCreated_def StatusRunning_def StatusCompleted_def StatusPaused_def

lemmas store_defs = redis_command_def getAllWorkflows_def getWorkflow_def saveWorkflows_def
  updateWorkflow_def apply_updates_def assign_name_def assign_status_def
  assign_started_at_def assign_completed_at_def reread_def

lemmas example_defs = pcr_run_def pcr_running_def pcr_request_def devices_idle_def
  devices_booked_def fresh_world_def world_created_def world_running_def api_url_def
  the_device_api_def start_updates_def

lemma redis_command_key: "redis_command w = (f, w1) \<Longrightarrow> workflows_key w1 = workflows_key w"
  by (auto simp: redis_command_def split: list.splits)

lemma getAllWorkflows_key: "getAllWorkflows w = (r, w1) \<Longrightarrow> workflows_key w1 = workflows_key w"
  by (auto simp: getAllWorkflows_def split: prod.splits bool.splits option.splits
       dest: redis_command_key)

lemma getAllWorkflows_stored: "getAllWorkflows w = (Inr workflows, w1) \<Longrightarrow> workflows = stored w"
  by (auto simp: getAllWorkflows_def stored_def split: prod.splits bool.splits option.splits
       dest: redis_command_key)

lemma getWorkflow_key: "getWorkflow workflowID w = (r, w1) \<Longrightarrow> workflows_key w1 = workflows_key w"
  by (auto simp: getWorkflow_def split: prod.splits sum.splits dest: getAllWorkflows_key)

lemma getWorkflow_stored: "getWorkflow workflowID w = (Inr r, w1) \<Longrightarrow> r = stored w workflowID"
  by (auto simp: getWorkflow_def split: prod.splits sum.splits dest: getAllWorkflows_stored)

lemma saveWorkflows_key:
  "saveWorkflows workflows w = (r, w1) \<Longrightarrow>
     (r = None \<and> workflows_key w1 = Some workflows)
     \<or> (r \<noteq> None \<and> workflows_key w1 = workflows_key w)"
  by (auto simp: saveWorkflows_def split: prod.splits bool.splits dest: redis_command_key)

text \<open>An update either leaves the blob as it was or replaces one existing record.\<close>

lemma updateWorkflow_key:
  assumes "updateWorkflow workflowID updates w = (r, w1)"
  shows "workflows_key w1 = workflows_key w \<or>
     (\<exists>old. stored w workflowID = Some old \<and>
        workflows_key w1 = Some ((stored w)(workflowID \<mapsto> apply_updates updates old)))"
proof (cases "getAllWorkflows w")
  case (Pair g w0)
  note key0 = getAllWorkflows_key [OF Pair]
  show ?thesis
  proof (cases g)
    case (Inl err)
    with Pair assms key0 show ?thesis by (simp add: updateWorkflow_def)
  next
    case (Inr workflows)
    with Pair have st: "workflows = stored w" by (simp add: getAllWorkflows_stored)
    show ?thesis
    proof (cases "workflows workflowID")
      case None
      with Pair Inr assms key0 show ?thesis by (simp add: updateWorkflow_def)
    next
      case (Some old)
      obtain e w2
        where sv: "saveWorkflows (workflows(workflowID \<mapsto> apply_updates updates old)) w0 = (e, w2)"
        by (cases "saveWorkflows (workflows(workflowID \<mapsto> apply_updates updates old)) w0")
      from assms Pair Inr Some sv have "w1 = w2"
        by (auto simp: updateWorkflow_def Let_def split: option.splits)
      with saveWorkflows_key [OF sv] key0 st Some show ?thesis by auto
    qed
  qed
qed

lemma updateWorkflow_failed_key:
  "updateWorkflow workflowID updates w = (Inl err, w1) \<Longrightarrow> workflows_key w1 = workflows_key w"
  by (auto simp: updateWorkflow_def Let_def split: prod.splits sum.splits option.splits
       dest!: getAllWorkflows_key saveWorkflows_key)

lemma reread_key: "reread workflowID w = (out, w1) \<Longrightarrow> workflows_key w1 = workflows_key w"
  by (auto simp: reread_def split: prod.splits sum.splits dest: getWorkflow_key)

lemma reread_reply:
  "reread workflowID w = (out, w1) \<Longrightarrow> \<exists>x. out = Reply (Response 200 (J_workflow x))"
  by (auto simp: reread_def split: prod.splits sum.splits)

lemma stored_after_update:
  assumes "updateWorkflow workflowID updates w = (r, w')" and "stored w workflowID = Some old"
  shows "stored w' = stored w \<or> stored w' = (stored w)(workflowID \<mapsto> apply_updates updates old)"
  using updateWorkflow_key [OF assms(1)] assms(2) by (auto simp: stored_def)

subsection \<open>The fields an update leaves alone\<close>

lemma assign_name_frame:
  "ID (assign_name u workflow) = ID workflow"
  "DeviceID (assign_name u workflow) = DeviceID workflow"
  "SampleBarcodes (assign_name u workflow) = SampleBarcodes workflow"
  "Steps (assign_name u workflow) = Steps workflow"
  "CreatedAt (assign_name u workflow) = CreatedAt workflow"
  "Status (assign_name u workflow) = Status workflow"
  "StartedAt (assign_name u workflow) = StartedAt workflow"
  "CompletedAt (assign_name u workflow) = CompletedAt workflow"
  "Name (assign_name None workflow) = Name workflow"
  by (simp_all add: assign_name_def split: option.splits any.splits)

lemma assign_status_frame:
  "ID (assign_status u workflow) = ID workflow"
  "DeviceID (assign_status u workflow) = DeviceID workflow"
  "SampleBarcodes (assign_status u workflow) = SampleBarcodes workflow"
  "Steps (assign_status u workflow) = Steps workflow"
  "CreatedAt (assign_status u workflow) = CreatedAt workflow"
  "Name (assign_status u workflow) = Name workflow"
  "StartedAt (assign_status u workflow) = StartedAt workflow"
  "CompletedAt (assign_status u workflow) = CompletedAt workflow"
  "Status (assign_status None workflow) = Status workflow"
  by (simp_all add: assign_status_def split: option.splits any.splits)

lemma assign_started_at_frame:
  "ID (assign_started_at u workflow) = ID workflow"
  "DeviceID (assign_started_at u workflow) = DeviceID workflow"
  "SampleBarcodes (assign_started_at u workflow) = SampleBarcodes workflow"
  "Steps (assign_started_at u workflow) = Steps workflow"
  "CreatedAt (assign_started_at u workflow) = CreatedAt workflow"
  "Name (assign_started_at u workflow) = Name workflow"
  "Status (assign_started_at u workflow) = Status workflow"
  "CompletedAt (assign_started_at u workflow) = CompletedAt workflow"
  "StartedAt (assign_started_at None workflow) = StartedAt workflow"
  by (simp_all add: assign_started_at_def split: option.splits any.splits)

lemma assign_completed_at_frame:
  "ID (assign_completed_at u workflow) = ID workflow"
  "DeviceID (assign_completed_at u workflow) = DeviceID workflow"
  "SampleBarcodes (assign_completed_at u workflow) = SampleBarcodes workflow"
  "Steps (assign_completed_at u workflow) = Steps workflow"
  "CreatedAt (assign_completed_at u workflow) = CreatedAt workflow"
  "Name (assign_completed_at u workflow) = Name workflow"
  "Status (assign_completed_at u workflow) = Status workflow"
  "StartedAt (assign_completed_at u workflow) = StartedAt workflow"
  "CompletedAt (assign_completed_at None workflow) = CompletedAt workflow"
  by (simp_all add: assign_completed_at_def split: option.splits any.splits)

lemmas assign_frame = assign_name_frame assign_status_frame assign_started_at_frame
  assign_completed_at_frame

lemma apply_updates_frame:
  "ID (apply_updates updates workflow) = ID workflow
   \<and> DeviceID (apply_updates updates workflow) = DeviceID workflow
   \<and> SampleBarcodes (apply_updates updates workflow) = SampleBarcodes workflow
   \<and> Steps (apply_updates updates workflow) = Steps workflow
   \<and> CreatedAt (apply_updates updates workflow) = CreatedAt workflow"
  by (simp add: apply_updates_def assign_frame)

lemma apply_updates_unmentioned:
  "(updates ''name'' = None \<longrightarrow> Name (apply_updates updates workflow) = Name workflow)
   \<and> (updates ''status'' = None \<longrightarrow> Status (apply_updates updates workflow) = Status workflow)
   \<and> (updates ''started_at'' = None
        \<longrightarrow> StartedAt (apply_updates updates workflow) = StartedAt workflow)
   \<and> (updates ''completed_at'' = None
        \<longrightarrow> CompletedAt (apply_updates updates workflow) = CompletedAt workflow)"
  by (simp add: apply_updates_def assign_frame)

text \<open>
  Claim C8. For a workflow that exists in the stored collection and any set of updates
  given to \<^verbatim>\<open>updateWorkflow\<close>, the record stored afterwards has the same identifier,
  device, sample barcodes, steps and creation time as before; each of name, status,
  started_at and completed_at whose key the update does not mention is the same as before;
  and every other workflow of the collection is the same as before.
\<close>

theorem updateWorkflow_frame:
  assumes "stored w workflowID = Some old"
    and "updateWorkflow workflowID updates w = (r, w')"
  shows "\<exists>new. stored w' workflowID = Some new
           \<and> ID new = ID old \<and> DeviceID new = DeviceID old
           \<and> SampleBarcodes new = SampleBarcodes old \<and> Steps new = Steps old
           \<and> CreatedAt new = CreatedAt old
           \<and> (updates ''name'' = None \<longrightarrow> Name new = Name old)
           \<and> (updates ''status'' = None \<longrightarrow> Status new = Status old)
           \<and> (updates ''started_at'' = None \<longrightarrow> StartedAt new = StartedAt old)
           \<and> (updates ''completed_at'' = None \<longrightarrow> CompletedAt new = CompletedAt old)
           \<and> (\<forall>other. other \<noteq> workflowID \<longrightarrow> stored w' other = stored w other)"
proof -
  from stored_after_update [OF assms(2) assms(1)]
  consider "stored w' = stored w"
    | "stored w' = (stored w)(workflowID \<mapsto> apply_updates updates old)" by blast
  then show ?thesis
  proof cases
    case 1
    with assms(1) show ?thesis by simp
  next
    case 2
    with apply_updates_frame [of updates old] apply_updates_unmentioned [of updates old]
    show ?thesis by simp
  qed
qed

theorem updateWorkflow_frame_witness:
  "stored world_created ''wf-1'' = Some pcr_run
   \<and> start_updates ''name'' = None \<and> start_updates ''completed_at'' = None
   \<and> (\<exists>new. stored (snd (updateWorkflow ''wf-1'' start_updates world_created)) ''wf-1'' = Some new
         \<and> ID new = ID pcr_run \<and> DeviceID new = DeviceID pcr_run
         \<and> SampleBarcodes new = SampleBarcodes pcr_run \<and> Steps new = Steps pcr_run
         \<and> CreatedAt new = CreatedAt pcr_run
         \<and> Name new = Name pcr_run \<and> CompletedAt new = CompletedAt pcr_run
         \<and> stored (snd (updateWorkflow ''wf-1'' start_updates world_created)) ''wf-2''
             = stored world_created ''wf-2'')"
proof -
  have h: "stored world_created ''wf-1'' = Some pcr_run"
    by (simp add: stored_def world_created_def)
  have n: "start_updates ''name'' = None" "start_updates ''completed_at'' = None"
    by (simp_all add: start_updates_def)
  have o: "''wf-2'' \<noteq> ''wf-1''" by simp
  define w' where "w' = snd (updateWorkflow ''wf-1'' start_updates world_created)"
  define a where "a = ''wf-1''"
  define b where "b = ''wf-2''"
  have e: "updateWorkflow a start_updates world_created
             = (fst (updateWorkflow a start_updates world_created), w')"
    by (simp add: w'_def a_def)
  have h': "stored world_created a = Some pcr_run" using h by (simp add: a_def)
  have o': "b \<noteq> a" using o by (simp add: a_def b_def)
  from updateWorkflow_frame [OF h' e] n o'
  have "\<exists>new. stored w' a = Some new
         \<and> ID new = ID pcr_run \<and> DeviceID new = DeviceID pcr_run
         \<and> SampleBarcodes new = SampleBarcodes pcr_run \<and> Steps new = Steps pcr_run
         \<and> CreatedAt new = CreatedAt pcr_run
         \<and> Name new = Name pcr_run \<and> CompletedAt new = CompletedAt pcr_run
         \<and> stored w' b = stored world_created b"
    by blast
  with h n show ?thesis unfolding w'_def a_def b_def by simp
qed

section \<open>Start\<close>

text \<open>
  Claim C5. Whenever Start fails with InvalidStateError (the status is not created), with
  DependencyError (the booking call failed in the transport) or with BookingRejectedError
  (the device service answered with a status other than 200), the stored workflow
  collection is what it was before the call.
\<close>

theorem start_failure_leaves_store:
  assumes "startWorkflowHandler post deviceAPIURL now workflowID w = (out, w')"
    and "InvalidStateError_start out \<or> DependencyError out \<or> BookingRejectedError out"
  shows "workflows_key w' = workflows_key w"
  using assms
  by (auto simp: startWorkflowHandler_def Let_def InvalidStateError_start_def
       split: prod.splits sum.splits option.splits if_splits
       dest: getWorkflow_key updateWorkflow_failed_key reread_key reread_reply)

theorem start_failure_leaves_store_witness:
  "InvalidStateError_start
     (fst (startWorkflowHandler the_device_api api_url ''2025-01-15T10:02:00Z'' ''wf-1''
             world_running))
   \<and> workflows_key
       (snd (startWorkflowHandler the_device_api api_url ''2025-01-15T10:02:00Z'' ''wf-1''
               world_running))
     = workflows_key world_running"
proof -
  have out: "InvalidStateError_start
     (fst (startWorkflowHandler the_device_api api_url ''2025-01-15T10:02:00Z'' ''wf-1''
             world_running))"
    by (simp add: startWorkflowHandler_def store_defs example_defs status_defs
          InvalidStateError_start_def)
  with start_failure_leaves_store
         [of the_device_api api_url "''2025-01-15T10:02:00Z''" "''wf-1''" world_running,
          OF surjective_pairing]
  show ?thesis by blast
qed

section \<open>ExecuteStep\<close>

text \<open>
  Claim C9. ExecuteStep never writes to the workflow collection: whatever the request and
  however the call ends (a reply of any status, or a panic), the stored collection is what
  it was before the call.
\<close>

theorem executeStep_never_writes:
  "workflows_key (snd (executeStepHandler post deviceAPIURL b workflowID w)) = workflows_key w"
  by (auto simp: executeStepHandler_def Let_def split: prod.splits sum.splits option.splits
       dest: getWorkflow_key)

text \<open>
  Claim C4, as stated, fails: the handler tests the status before the index, so for a
  workflow that is not running a step index beyond the steps gets the reply
  "Workflow is not running", not "Invalid step index". Here the workflow is in status
  created and has two steps, and the index is 5.
\<close>

theorem executeStep_not_running_counterexample:
  "\<not> IndexError
       (fst (executeStepHandler the_device_api api_url (Parsed (Some 5)) ''wf-1'' world_created))"
  by (simp add: executeStepHandler_def store_defs example_defs status_defs IndexError_def)

lemma getWorkflow_reads:
  "\<not> fst (redis_command w) \<Longrightarrow> fst (getWorkflow workflowID w) = Inr (stored w workflowID)"
  by (auto simp: getWorkflow_def getAllWorkflows_def redis_command_def stored_def
        split: list.splits option.splits)

text \<open>
  Claim C4, amended. For every workflow in the stored collection (the command that reads
  the collection succeeding), ExecuteStep with a step index that is
  greater than or equal to the number of steps and binds as a Go \<^verbatim>\<open>int\<close> (it is below
  \<open>2^63\<close>) fails with a 400 reply: IndexError when the workflow's status is running,
  InvalidStateError ("Workflow is not running") for every other status. A step index
  that does not bind is replaced by 0 before the test.
\<close>

theorem executeStep_index_at_least_len:
  assumes "\<not> fst (redis_command w)"
    and "stored w workflowID = Some workflow"
    and "int (length (Steps workflow)) \<le> i"
    and "i < 2 ^ 63"
  shows "if Status workflow = StatusRunning
         then IndexError (fst (executeStepHandler post deviceAPIURL (Parsed (Some i)) workflowID w))
         else InvalidStateError_not_running
                (fst (executeStepHandler post deviceAPIURL (Parsed (Some i)) workflowID w))"
proof -
  from getWorkflow_reads [OF assms(1), of workflowID] assms(2)
  obtain w1 where found: "getWorkflow workflowID w = (Inr (Some workflow), w1)"
    by (cases "getWorkflow workflowID w") auto
  from assms(3) have "- (2 ^ 63) \<le> i" by simp
  with assms(4) have "bind_ExecuteStepRequest (Parsed (Some i)) = Inr i"
    by (simp add: bind_ExecuteStepRequest_def)
  with found assms(3) show ?thesis
    by (simp add: executeStepHandler_def IndexError_def InvalidStateError_not_running_def)
qed

theorem executeStep_index_at_least_len_witness:
  "\<not> fst (redis_command world_running)
   \<and> stored world_running ''wf-1'' = Some pcr_running
   \<and> int (length (Steps pcr_running)) \<le> 2
   \<and> (2::int) < 2 ^ 63
   \<and> Status pcr_running = StatusRunning
   \<and> IndexError
       (fst (executeStepHandler the_device_api api_url (Parsed (Some 2)) ''wf-1'' world_running))"
proof -
  have c: "\<not> fst (redis_command world_running)"
    by (simp add: redis_command_def world_running_def)
  have g: "stored world_running ''wf-1'' = Some pcr_running"
    by (simp add: stored_def world_running_def)
  have l: "int (length (Steps pcr_running)) \<le> 2"
    by (simp add: example_defs)
  have r: "(2::int) < 2 ^ 63" by simp
  have s: "Status pcr_running = StatusRunning"
    by (simp add: example_defs)
  from executeStep_index_at_least_len [OF c g l r, of the_device_api api_url] c g l s
  show ?thesis by simp
qed

text \<open>
  A step index beyond the range of \<^verbatim>\<open>int\<close> does not bind: the handler goes on with
  index 0 and, for a running workflow, executes the first step.
\<close>

lemma executeStep_unbound_index_runs_first_step:
  "fst (executeStepHandler granting_api api_url (Parsed (Some (2 ^ 63))) ''wf-1'' world_running)
     = Reply (Response 200 (J_step ''wf-1'' 0 ''pipette'' (Some [(''status'', ''ok'')])))"
  by (simp add: executeStepHandler_def store_defs example_defs status_defs granting_api_def
        bind_ExecuteStepRequest_def index_steps_def)

text \<open>
  Claim C3 at a negative index. The handler compares the index with the number of steps
  only from above; a running workflow with two steps and the index -1 passes the test and
  the slice access panics.
\<close>

theorem executeStep_negative_index_panics:
  "executeStepHandler the_device_api api_url (Parsed (Some (- 1))) ''wf-1'' world_running
     = (Panic ''runtime error: index out of range'', world_running)"
  by (simp add: executeStepHandler_def store_defs example_defs status_defs
        bind_ExecuteStepRequest_def index_steps_def)

section \<open>Sample validation\<close>

lemma validate_loop_eq:
  "length results = i + length barcodes \<Longrightarrow>
   validate_loop samples i barcodes results =
     take i results
       @ map (\<lambda>barcode. \<lparr>result_Barcode = barcode, Exists = (samples barcode \<noteq> None)\<rparr>) barcodes"
proof (induction barcodes arbitrary: i results)
  case Nil
  then show ?case by simp
next
  case (Cons barcode rest)
  have "take (Suc i) (results[i := x]) = take i results @ [x]" for x
    using Cons.prems by (simp add: take_Suc_conv_app_nth)
  with Cons show ?case by simp
qed

lemma getAllSamples_key: "getAllSamples s = (r, s1) \<Longrightarrow> samples_key s1 = samples_key s"
  by (auto simp: getAllSamples_def sample_command_def split: list.splits bool.splits option.splits)

lemma getAllSamples_reads:
  "\<not> fst (sample_command s) \<Longrightarrow> fst (getAllSamples s) = Inr (stored_samples s)"
  by (auto simp: getAllSamples_def sample_command_def stored_samples_def
        split: list.splits option.splits)

lemma validate_never_writes:
  "samples_key (snd (validateSamplesHandler b s)) = samples_key s"
proof (cases "getAllSamples s")
  case (Pair r s1)
  from getAllSamples_key [OF Pair] Pair show ?thesis
    by (simp add: validateSamplesHandler_def Let_def split: sum.splits)
qed

text \<open>
  Claim C10. Validation never modifies the stored sample collection, whatever the request
  and whether or not the store can be read. For a request that carries a list of barcodes,
  when the command that reads the collection succeeds, the reply is 200 with one result
  per requested barcode, in the order of the request, the i-th result pairing the i-th
  barcode with whether a sample is stored under that barcode in the collection.
\<close>

theorem validate_pairs_barcodes_with_existence:
  "samples_key (snd (validateSamplesHandler b s)) = samples_key s
   \<and> (\<not> fst (sample_command s) \<longrightarrow>
        fst (validateSamplesHandler (Some (Some barcodes)) s)
          = Validation_results 200
              (map (\<lambda>barcode. \<lparr>result_Barcode = barcode,
                                Exists = (barcode \<in> dom (stored_samples s))\<rparr>) barcodes))"
proof (intro conjI impI)
  show "samples_key (snd (validateSamplesHandler b s)) = samples_key s"
    by (rule validate_never_writes)
next
  assume "\<not> fst (sample_command s)"
  from getAllSamples_reads [OF this]
  obtain s1 where "getAllSamples s = (Inr (stored_samples s), s1)"
    by (cases "getAllSamples s") auto
  then show "fst (validateSamplesHandler (Some (Some barcodes)) s)
          = Validation_results 200
              (map (\<lambda>barcode. \<lparr>result_Barcode = barcode,
                                Exists = (barcode \<in> dom (stored_samples s))\<rparr>) barcodes)"
    by (auto simp: validateSamplesHandler_def bind_ValidateRequest_def Let_def validate_loop_eq)
qed

theorem validate_pairs_barcodes_with_existence_witness:
  "\<not> fst (sample_command samples_one)
   \<and> stored_samples samples_one = sample_collection
   \<and> fst (validateSamplesHandler (Some (Some [''SAMPLE001'', ''SAMPLE999''])) samples_one)
       = Validation_results 200
           [\<lparr>result_Barcode = ''SAMPLE001'', Exists = True\<rparr>,
            \<lparr>result_Barcode = ''SAMPLE999'', Exists = False\<rparr>]
   \<and> samples_key (snd (validateSamplesHandler (Some (Some [''SAMPLE001'', ''SAMPLE999'']))
                         samples_one))
       = samples_key samples_one"
proof -
  have g: "\<not> fst (sample_command samples_one)"
    by (simp add: sample_command_def samples_one_def)
  have st: "stored_samples samples_one = sample_collection"
    by (simp add: stored_samples_def samples_one_def)
  have d: "''SAMPLE001'' \<in> dom sample_collection" "''SAMPLE999'' \<notin> dom sample_collection"
    by (simp_all add: sample_collection_def)
  note t = validate_pairs_barcodes_with_existence
             [of "Some (Some [''SAMPLE001'', ''SAMPLE999''])" samples_one
                 "[''SAMPLE001'', ''SAMPLE999'']"]
  from t [THEN conjunct2, rule_format, OF g] t [THEN conjunct1] g st d
  show ?thesis by simp
qed

section \<open>The device service: release and routing\<close>

lemmas device_defs = dev_command_def get_status_key_def get_workflow_key_def getDeviceStatus_def
  setDeviceStatus_def bind_BookRequest_def bind_ReleaseRequest_def
  bind_ExecuteRequest_def error_body_def bookDeviceHandler_def releaseDeviceHandler_def
  executeOperationHandler_def not_found_page_def device_router_POST_def device_api_def DEVICES_def

lemma dev_command_maps:
  "status_key (snd (dev_command d)) = status_key d"
  "workflow_key (snd (dev_command d)) = workflow_key d"
  by (simp_all add: dev_command_def split: list.splits)

text \<open>The lookup of the reservation reads the stored key when its command succeeds.\<close>

lemma get_workflow_key_reads:
  "get_workflow_key deviceID d =
     (if fst (dev_command d) then None else workflow_key d deviceID, snd (dev_command d))"
  by (simp add: get_workflow_key_def split_beta dev_command_maps)

lemma setDeviceStatus_release:
  "dev_faults d = [] \<Longrightarrow>
     status_key (setDeviceStatus deviceID status None d) deviceID = Some status
     \<and> workflow_key (setDeviceStatus deviceID status None d) deviceID = None"
  by (simp add: setDeviceStatus_def dev_command_def)

text \<open>
  Claim C2, as stated, fails: \<^verbatim>\<open>workflow_id\<close> is optional in a release request, and
  the handler rejects a request only when it carries a non-empty identifier. Here the
  liquid handler is reserved by workflow \<open>wf-1\<close>; a release request whose body is the
  empty object, so that no workflow identifier is bound, is answered 200, the reservation
  is cleared and the device is available.
\<close>

theorem release_without_workflow_id_counterexample:
  "workflow_key devices_booked ''liquid-handler-1'' = Some ''wf-1''
   \<and> StatusCode (fst (releaseDeviceHandler ''2025-01-15T10:05:00Z'' ''liquid-handler-1''
                        (Some []) devices_booked)) = 200
   \<and> workflow_key (snd (releaseDeviceHandler ''2025-01-15T10:05:00Z'' ''liquid-handler-1''
                          (Some []) devices_booked)) ''liquid-handler-1'' = None
   \<and> status_key (snd (releaseDeviceHandler ''2025-01-15T10:05:00Z'' ''liquid-handler-1''
                        (Some []) devices_booked)) ''liquid-handler-1'' = Some ''available''"
  by (simp add: device_defs devices_booked_def)

text \<open>
  Claim C2, amended. The workflow identifier of a release request is the one
  \<^verbatim>\<open>ShouldBindJSON\<close> binds from its body, empty when the body does not bind or has no
  \<^verbatim>\<open>workflow_id\<close>. A release request for a known device is rejected (403, with the
  device's status and reservation unchanged) exactly when the lookup of the reservation
  succeeds, the device has a stored holder, the request's identifier is not empty, and the
  two differ. Every other request for a known device is honored with 200: from the holder,
  with an empty identifier, when no holder is stored, or when the lookup fails; then, when
  the two store commands that follow succeed, the device is available and its reservation
  is cleared.
\<close>

theorem release_rejected_only_for_other_holder:
  assumes "DEVICES deviceID \<noteq> None"
    and "WorkflowID = (case decoded of None \<Rightarrow> [] | Some wid \<Rightarrow> wid)"
    and "releaseDeviceHandler now deviceID decoded d = (resp, d')"
  shows "if \<not> fst (dev_command d) \<and> WorkflowID \<noteq> []
            \<and> workflow_key d deviceID \<noteq> None \<and> workflow_key d deviceID \<noteq> Some WorkflowID
         then StatusCode resp = 403
              \<and> status_key d' = status_key d \<and> workflow_key d' = workflow_key d
         else StatusCode resp = 200
              \<and> (dev_faults (snd (dev_command d)) = [] \<longrightarrow>
                    status_key d' deviceID = Some ''available'' \<and> workflow_key d' deviceID = None)"
proof -
  let ?W = "case bind_ReleaseRequest decoded of Inl err \<Rightarrow> [] | Inr wid \<Rightarrow> wid"
  let ?d1 = "snd (dev_command d)"
  have bound: "?W = WorkflowID"
    using assms(2) by (simp add: bind_ReleaseRequest_def split: option.splits)
  have known: "(DEVICES deviceID = None) = False" using assms(1) by simp
  show ?thesis
  proof (cases "fst (dev_command d)")
    case True
    then have "get_workflow_key deviceID d = (None, ?d1)"
      by (simp add: get_workflow_key_reads)
    with assms(3) known have "StatusCode resp = 200"
      and "d' = setDeviceStatus deviceID ''available'' None ?d1"
      by (auto simp: releaseDeviceHandler_def Let_def)
    with True setDeviceStatus_release [of ?d1 deviceID "''available''"] show ?thesis by simp
  next
    case False
    then have look: "get_workflow_key deviceID d = (workflow_key d deviceID, ?d1)"
      by (simp add: get_workflow_key_reads)
    show ?thesis
    proof (cases "workflow_key d deviceID")
      case None
      with look assms(3) known have "StatusCode resp = 200"
        and "d' = setDeviceStatus deviceID ''available'' None ?d1"
        by (auto simp: releaseDeviceHandler_def Let_def)
      with None setDeviceStatus_release [of ?d1 deviceID "''available''"] show ?thesis by simp
    next
      case (Some currentWorkflow)
      show ?thesis
      proof (cases "currentWorkflow \<noteq> WorkflowID \<and> WorkflowID \<noteq> []")
        case True
        with Some look assms(3) known bound have "StatusCode resp = 403" and "d' = ?d1"
          by (auto simp: releaseDeviceHandler_def Let_def)
        with True Some False show ?thesis by (simp add: dev_command_maps)
      next
        case no: False
        with Some look assms(3) known bound have "StatusCode resp = 200"
          and "d' = setDeviceStatus deviceID ''available'' None ?d1"
          by (auto simp: releaseDeviceHandler_def Let_def)
        with no Some setDeviceStatus_release [of ?d1 deviceID "''available''"] show ?thesis
          by auto
      qed
    qed
  qed
qed

theorem release_rejected_only_for_other_holder_witness:
  "DEVICES ''liquid-handler-1'' \<noteq> None
   \<and> \<not> fst (dev_command devices_booked)
   \<and> workflow_key devices_booked ''liquid-handler-1'' = Some ''wf-1''
   \<and> StatusCode (fst (releaseDeviceHandler ''2025-01-15T10:05:00Z'' ''liquid-handler-1''
                        release_by_other devices_booked)) = 403
   \<and> workflow_key (snd (releaseDeviceHandler ''2025-01-15T10:05:00Z'' ''liquid-handler-1''
                          release_by_other devices_booked)) = workflow_key devices_booked
   \<and> status_key (snd (releaseDeviceHandler ''2025-01-15T10:05:00Z'' ''liquid-handler-1''
                        release_by_other devices_booked)) = status_key devices_booked"
proof -
  have h1: "DEVICES ''liquid-handler-1'' \<noteq> None" by (simp add: DEVICES_def)
  have h2: "''wf-2'' = (case release_by_other of None \<Rightarrow> [] | Some wid \<Rightarrow> wid)"
    by (simp add: release_by_other_def)
  have c1: "\<not> fst (dev_command devices_booked)"
    by (simp add: dev_command_def devices_booked_def)
  have c2: "workflow_key devices_booked ''liquid-handler-1'' = Some ''wf-1''"
    by (simp add: devices_booked_def)
  have cond: "\<not> fst (dev_command devices_booked) \<and> ''wf-2'' \<noteq> []
      \<and> workflow_key devices_booked ''liquid-handler-1'' \<noteq> None
      \<and> workflow_key devices_booked ''liquid-handler-1'' \<noteq> Some ''wf-2''"
    using c1 c2 by simp
  note t = release_rejected_only_for_other_holder
             [OF h1 h2 surjective_pairing,
              where now = "''2025-01-15T10:05:00Z''" and d = devices_booked,
              unfolded if_P [OF cond]]
  show ?thesis
    apply (intro conjI)
         apply (rule h1)
        apply (rule c1)
       apply (rule c2)
      apply (rule t [THEN conjunct1])
     apply (rule t [THEN conjunct2, THEN conjunct2])
    apply (rule t [THEN conjunct2, THEN conjunct1])
    done
qed

lemma split_reserve_path:
  "split_path (''/device/'' @ deviceID @ ''/reserve'') ! 1 = ''device''"
  by (simp split: list.splits)

lemma reserve_path_not_routed:
  "device_router_POST now (''/device/'' @ deviceID @ ''/reserve'') b d = (not_found_page, d)"
  using split_reserve_path [of deviceID] by (simp add: device_router_POST_def Let_def)

lemma device_api_reserve:
  "url = base @ ''/device/'' @ deviceID @ ''/reserve'' \<Longrightarrow>
     device_api base dnow url b d = (Inr not_found_page, d)"
  using reserve_path_not_routed [of dnow deviceID b d] by (simp add: device_api_def)

lemma start_never_reaches_booking:
  assumes "startWorkflowHandler (device_api base dnow) base now workflowID w = (out, w')"
  shows "workflows_key w' = workflows_key w \<and> (\<forall>x. out \<noteq> Reply (Response 200 (J_workflow x)))"
proof (cases "getWorkflow workflowID w")
  case (Pair g w1)
  note key = getWorkflow_key [OF Pair]
  show ?thesis
  proof (cases g)
    case (Inl err)
    with Pair assms key show ?thesis by (auto simp: startWorkflowHandler_def)
  next
    case (Inr found)
    show ?thesis
    proof (cases found)
      case None
      with Pair Inr assms key show ?thesis by (auto simp: startWorkflowHandler_def)
    next
      case (Some workflow)
      with Pair Inr assms key show ?thesis
        by (auto simp: startWorkflowHandler_def Let_def device_api_reserve not_found_page_def
              split: if_splits)
    qed
  qed
qed

text \<open>
  Claim C1 at a workflow in status created whose device exists and is available. Start
  posts to \<^verbatim>\<open>/device/<id>/reserve\<close>, which the device service does not route (its booking
  endpoint is \<^verbatim>\<open>/devices/<id>/book\<close>; the source marks the URL as a wrong endpoint). Start
  gets the router's 404, replies 404 and leaves the workflow in status created and the
  device unreserved, although the booking handler, on the same request and device state,
  answers 200.
\<close>

theorem start_books_at_unrouted_path:
  "fst (startWorkflowHandler the_device_api api_url ''2025-01-15T10:01:00Z'' ''wf-1'' world_created)
     = Reply (Response 404 (H_error_details ''Failed to book device'' None))
   \<and> snd (startWorkflowHandler the_device_api api_url ''2025-01-15T10:01:00Z'' ''wf-1'' world_created)
     = world_created
   \<and> StatusCode (fst (bookDeviceHandler ''2025-01-15T10:01:00Z'' ''liquid-handler-1''
                        (Some ''wf-1'') devices_idle)) = 200"
  by (simp add: startWorkflowHandler_def store_defs example_defs status_defs device_defs Let_def)

section \<open>The coordinator's effect on the stored collection\<close>

lemma redis_command_frame [simp]:
  "workflows_key (snd (redis_command w)) = workflows_key w"
  "uuid_source (snd (redis_command w)) = uuid_source w"
  "device_service (snd (redis_command w)) = device_service w"
  by (simp_all add: redis_command_def split: list.splits)

lemma getAllWorkflows_frame [simp]:
  "workflows_key (snd (getAllWorkflows w)) = workflows_key w"
  "uuid_source (snd (getAllWorkflows w)) = uuid_source w"
  "device_service (snd (getAllWorkflows w)) = device_service w"
  by (simp_all add: getAllWorkflows_def split_beta split: bool.splits option.splits)

lemma getAllWorkflows_result:
  "fst (getAllWorkflows w) = Inr workflows \<Longrightarrow> workflows = stored w"
  by (simp add: getAllWorkflows_def stored_def split_beta split: bool.splits option.splits if_splits)

lemma getWorkflow_frame [simp]:
  "workflows_key (snd (getWorkflow workflowID w)) = workflows_key w"
  "uuid_source (snd (getWorkflow workflowID w)) = uuid_source w"
  "device_service (snd (getWorkflow workflowID w)) = device_service w"
  by (simp_all add: getWorkflow_def split_beta split: sum.splits)

lemma getWorkflow_result:
  "fst (getWorkflow workflowID w) = Inr found \<Longrightarrow> found = stored w workflowID"
  by (auto simp: getWorkflow_def split_beta split: sum.splits dest: getAllWorkflows_result)

lemma saveWorkflows_frame [simp]:
  "uuid_source (snd (saveWorkflows workflows w)) = uuid_source w"
  "device_service (snd (saveWorkflows workflows w)) = device_service w"
  by (simp_all add: saveWorkflows_def split_beta split: bool.splits)

lemma saveWorkflows_stored:
  "stored (snd (saveWorkflows workflows w)) =
     (if fst (saveWorkflows workflows w) = None then workflows else stored w)"
  by (simp add: saveWorkflows_def split_beta stored_def split: bool.splits)

lemma stored_snd [simp]:
  "stored (snd (redis_command w)) = stored w"
  "stored (snd (getAllWorkflows w)) = stored w"
  "stored (snd (getWorkflow workflowID w)) = stored w"
  "stored (w\<lparr>device_service := d\<rparr>) = stored w"
  "stored (w\<lparr>uuid_source := us\<rparr>) = stored w"
  by (simp_all add: stored_def)

lemma updateWorkflow_frame_env [simp]:
  "uuid_source (snd (updateWorkflow workflowID updates w)) = uuid_source w"
  by (simp add: updateWorkflow_def split_beta Let_def split: sum.splits option.splits)

lemma updateWorkflow_stored:
  "stored (snd (updateWorkflow workflowID updates w)) = stored w
   \<or> (\<exists>old. stored w workflowID = Some old
         \<and> stored (snd (updateWorkflow workflowID updates w))
             = (stored w)(workflowID \<mapsto> apply_updates updates old))"
  by (auto simp: updateWorkflow_def split_beta Let_def saveWorkflows_stored
        split: sum.splits option.splits dest: getAllWorkflows_result)

lemma reread_frame [simp]:
  "stored (snd (reread workflowID w)) = stored w"
  "uuid_source (snd (reread workflowID w)) = uuid_source w"
  by (simp_all add: reread_def split_beta stored_def split: sum.splits)

lemma apply_start_updates:
  "apply_updates [''status'' \<mapsto> AWorkflowStatus s, ''started_at'' \<mapsto> AString now] workflow
     = workflow\<lparr>Status := s, StartedAt := now\<rparr>"
  by (simp add: apply_updates_def assign_name_def assign_status_def assign_started_at_def
        assign_completed_at_def)

lemma apply_complete_updates:
  "apply_updates [''status'' \<mapsto> AWorkflowStatus s, ''completed_at'' \<mapsto> AString now] workflow
     = workflow\<lparr>Status := s, CompletedAt := now\<rparr>"
  by (simp add: apply_updates_def assign_name_def assign_status_def assign_started_at_def
        assign_completed_at_def)

lemma create_store:
  "stored (snd (createWorkflowHandler now b w)) = stored w
   \<or> (\<exists>workflow. stored (snd (createWorkflowHandler now b w)) = (stored w)(ID workflow \<mapsto> workflow)
         \<and> Status workflow = StatusCreated \<and> StartedAt workflow = []
         \<and> CompletedAt workflow = [])"
proof (cases "bind_CreateWorkflowRequest b")
  case (Inl err)
  then show ?thesis by (simp add: createWorkflowHandler_def)
next
  case (Inr req)
  show ?thesis
  proof (cases "uuid_source w")
    case Nil
    with Inr show ?thesis by (simp add: createWorkflowHandler_def uuid_New_def)
  next
    case (Cons u us)
    define workflow where
      "workflow = \<lparr>ID = u, Name = req_Name req, DeviceID = req_DeviceID req,
                    SampleBarcodes = req_SampleBarcodes req, Steps = req_Steps req,
                    Status = StatusCreated, CreatedAt = now, StartedAt = [], CompletedAt = []\<rparr>"
    have "stored (snd (createWorkflowHandler now b w)) = stored w
          \<or> stored (snd (createWorkflowHandler now b w)) = (stored w)(ID workflow \<mapsto> workflow)"
      using Inr Cons
      by (auto simp: createWorkflowHandler_def uuid_New_def split_beta Let_def workflow_def
            saveWorkflows_stored split: sum.splits option.splits dest: getAllWorkflows_result)
    moreover have "Status workflow = StatusCreated \<and> StartedAt workflow = []
            \<and> CompletedAt workflow = []"
      by (simp add: workflow_def)
    ultimately show ?thesis by blast
  qed
qed

lemma start_store:
  "stored (snd (startWorkflowHandler post deviceAPIURL now workflowID w)) = stored w
   \<or> (\<exists>old. stored w workflowID = Some old \<and> Status old = StatusCreated
         \<and> stored (snd (startWorkflowHandler post deviceAPIURL now workflowID w))
             = (stored w)(workflowID \<mapsto> old\<lparr>Status := StatusRunning, StartedAt := now\<rparr>))"
proof (cases "fst (getWorkflow workflowID w)")
  case (Inl err)
  then show ?thesis by (simp add: startWorkflowHandler_def split_beta)
next
  case (Inr found)
  note found = getWorkflow_result [OF Inr]
  show ?thesis
  proof (cases found)
    case None
    with Inr show ?thesis by (simp add: startWorkflowHandler_def split_beta)
  next
    case (Some workflow)
    define w2 where "w2 = (snd (getWorkflow workflowID w))\<lparr>device_service :=
        snd (post (deviceAPIURL @ ''/device/'' @ DeviceID workflow @ ''/reserve'')
               (BookDeviceRequest workflowID)
               (device_service (snd (getWorkflow workflowID w))))\<rparr>"
    have s2: "stored w2 = stored w" by (simp add: w2_def)
    define w3 where "w3 = snd (updateWorkflow workflowID
        [''status'' \<mapsto> AWorkflowStatus StatusRunning, ''started_at'' \<mapsto> AString now] w2)"
    have s3: "stored w3 = stored w \<or>
        stored w3 = (stored w)(workflowID \<mapsto> workflow\<lparr>Status := StatusRunning, StartedAt := now\<rparr>)"
      using updateWorkflow_stored [of workflowID
          "[''status'' \<mapsto> AWorkflowStatus StatusRunning, ''started_at'' \<mapsto> AString now]" w2]
        s2 found Some
      by (auto simp: w3_def apply_start_updates)
    have "stored (snd (startWorkflowHandler post deviceAPIURL now workflowID w)) = stored w
          \<or> (Status workflow = StatusCreated
              \<and> stored (snd (startWorkflowHandler post deviceAPIURL now workflowID w)) = stored w3)"
      using Inr Some
      by (simp add: startWorkflowHandler_def split_beta Let_def w2_def w3_def
            split: sum.splits)
    moreover have "stored w workflowID = Some workflow" using found Some by simp
    ultimately show ?thesis using s3 by (elim disjE conjE; simp)
  qed
qed

lemma complete_store:
  "stored (snd (completeWorkflowHandler post deviceAPIURL now workflowID w)) = stored w
   \<or> (\<exists>old. stored w workflowID = Some old \<and> Status old = StatusRunning
         \<and> stored (snd (completeWorkflowHandler post deviceAPIURL now workflowID w))
             = (stored w)(workflowID \<mapsto> old\<lparr>Status := StatusCompleted, CompletedAt := now\<rparr>))"
proof (cases "fst (getWorkflow workflowID w)")
  case (Inl err)
  then show ?thesis by (simp add: completeWorkflowHandler_def split_beta)
next
  case (Inr found)
  note found = getWorkflow_result [OF Inr]
  show ?thesis
  proof (cases found)
    case None
    with Inr show ?thesis by (simp add: completeWorkflowHandler_def split_beta)
  next
    case (Some workflow)
    define w2 where "w2 = (snd (getWorkflow workflowID w))\<lparr>device_service :=
        snd (post (deviceAPIURL @ ''/devices/'' @ DeviceID workflow @ ''/release'')
               (ReleaseDeviceRequest workflowID)
               (device_service (snd (getWorkflow workflowID w))))\<rparr>"
    have s2: "stored w2 = stored w" by (simp add: w2_def)
    define w3 where "w3 = snd (updateWorkflow workflowID
        [''status'' \<mapsto> AWorkflowStatus StatusCompleted, ''completed_at'' \<mapsto> AString now] w2)"
    have s3: "stored w3 = stored w \<or>
        stored w3 = (stored w)(workflowID \<mapsto> workflow\<lparr>Status := StatusCompleted, CompletedAt := now\<rparr>)"
      using updateWorkflow_stored [of workflowID
          "[''status'' \<mapsto> AWorkflowStatus StatusCompleted, ''completed_at'' \<mapsto> AString now]" w2]
        s2 found Some
      by (auto simp: w3_def apply_complete_updates)
    have "stored (snd (completeWorkflowHandler post deviceAPIURL now workflowID w)) = stored w
          \<or> (Status workflow = StatusRunning
              \<and> stored (snd (completeWorkflowHandler post deviceAPIURL now workflowID w)) = stored w3)"
      using Inr Some
      by (simp add: completeWorkflowHandler_def split_beta Let_def w2_def w3_def
            split: sum.splits)
    moreover have "stored w workflowID = Some workflow" using found Some by simp
    ultimately show ?thesis using s3 by (elim disjE conjE; simp)
  qed
qed

lemma executeStep_store:
  "stored (snd (executeStepHandler post deviceAPIURL b workflowID w)) = stored w"
  by (simp add: executeStepHandler_def split_beta Let_def split: sum.splits option.splits)

section \<open>The invariant of the data model\<close>

lemma handle_keeps_match:
  assumes inv: "\<forall>workflowID workflow. stored w workflowID = Some workflow
                  \<longrightarrow> timestamps_match_status workflow"
    and clock: "clock_read r"
  shows "\<forall>workflowID workflow. stored (snd (handle post deviceAPIURL r w)) workflowID = Some workflow
           \<longrightarrow> timestamps_match_status workflow"
proof (cases r)
  case (Create now b)
  from create_store [of now b w]
  consider "stored (snd (createWorkflowHandler now b w)) = stored w"
    | new where "stored (snd (createWorkflowHandler now b w)) = (stored w)(ID new \<mapsto> new)"
        "Status new = StatusCreated" "StartedAt new = []" "CompletedAt new = []"
    by blast
  then show ?thesis
  proof cases
    case 1
    with inv show ?thesis unfolding Create handle.simps by simp
  next
    case 2
    from 2(2-4) have "timestamps_match_status new"
      by (simp add: timestamps_match_status_def status_defs)
    with inv 2(1) show ?thesis unfolding Create handle.simps by simp
  qed
next
  case (Start now workflowID)
  with clock have now: "now \<noteq> []" by simp
  from start_store [of post deviceAPIURL now workflowID w]
  consider "stored (snd (startWorkflowHandler post deviceAPIURL now workflowID w)) = stored w"
    | old where "stored w workflowID = Some old" "Status old = StatusCreated"
        "stored (snd (startWorkflowHandler post deviceAPIURL now workflowID w))
           = (stored w)(workflowID \<mapsto> old\<lparr>Status := StatusRunning, StartedAt := now\<rparr>)"
    by blast
  then show ?thesis
  proof cases
    case 1
    with inv show ?thesis unfolding Start handle.simps by simp
  next
    case 2
    from inv 2(1) have "timestamps_match_status old" by blast
    with 2(2) now
    have "timestamps_match_status (old\<lparr>Status := StatusRunning, StartedAt := now\<rparr>)"
      by (simp add: timestamps_match_status_def status_defs)
    with inv 2(3) show ?thesis unfolding Start handle.simps by simp
  qed
next
  case (Complete now workflowID)
  with clock have now: "now \<noteq> []" by simp
  from complete_store [of post deviceAPIURL now workflowID w]
  consider "stored (snd (completeWorkflowHandler post deviceAPIURL now workflowID w)) = stored w"
    | old where "stored w workflowID = Some old" "Status old = StatusRunning"
        "stored (snd (completeWorkflowHandler post deviceAPIURL now workflowID w))
           = (stored w)(workflowID \<mapsto> old\<lparr>Status := StatusCompleted, CompletedAt := now\<rparr>)"
    by blast
  then show ?thesis
  proof cases
    case 1
    with inv show ?thesis unfolding Complete handle.simps by simp
  next
    case 2
    from inv 2(1) have "timestamps_match_status old" by blast
    with 2(2) now
    have "timestamps_match_status (old\<lparr>Status := StatusCompleted, CompletedAt := now\<rparr>)"
      by (simp add: timestamps_match_status_def status_defs)
    with inv 2(3) show ?thesis unfolding Complete handle.simps by simp
  qed
next
  case (ExecuteStep b workflowID)
  with inv show ?thesis by (simp add: executeStep_store)
qed

lemma run_keeps_match:
  "\<forall>workflowID workflow. stored w workflowID = Some workflow
      \<longrightarrow> timestamps_match_status workflow \<Longrightarrow>
   list_all clock_read rs \<Longrightarrow>
   \<forall>workflowID workflow. stored (run post deviceAPIURL rs w) workflowID = Some workflow
      \<longrightarrow> timestamps_match_status workflow"
proof (induction rs arbitrary: w)
  case Nil
  then show ?case by simp
next
  case (Cons r rs)
  from Cons.prems have "clock_read r" "list_all clock_read rs" by simp_all
  from Cons.IH [OF handle_keeps_match [OF Cons.prems(1) this(1)] this(2)]
  show ?case by simp
qed

text \<open>
  Claim C6. In every stored workflow record produced by any sequence of Create, Start,
  Complete and ExecuteStep requests from the empty store, whatever the device service
  answers and whichever store commands fail, started_at is set if and only if the status
  is running or completed, and completed_at is set if and only if the status is completed.
  The clock is assumed never to read as the empty string.
\<close>

theorem reachable_timestamps_match_status:
  assumes "workflows_key w0 = None"
    and "list_all clock_read rs"
    and "stored (run post deviceAPIURL rs w0) workflowID = Some workflow"
  shows "(StartedAt workflow \<noteq> [])
           = (Status workflow = StatusRunning \<or> Status workflow = StatusCompleted)
         \<and> (CompletedAt workflow \<noteq> []) = (Status workflow = StatusCompleted)"
proof -
  from assms(1) have "\<forall>workflowID workflow. stored w0 workflowID = Some workflow
      \<longrightarrow> timestamps_match_status workflow"
    by (simp add: stored_def)
  from run_keeps_match [OF this assms(2)] assms(3)
  have "timestamps_match_status workflow" by blast
  then show ?thesis by (simp add: timestamps_match_status_def)
qed

lemma lifecycle_run:
  "stored (run granting_api api_url lifecycle fresh_world) ''wf-1'' = Some pcr_completed"
  by (simp add: lifecycle_def granting_api_def pcr_completed_def example_defs store_defs
        status_defs createWorkflowHandler_def startWorkflowHandler_def
        completeWorkflowHandler_def executeStepHandler_def bind_CreateWorkflowRequest_def
        bind_ExecuteStepRequest_def index_steps_def uuid_New_def stored_def Let_def)

theorem reachable_timestamps_match_status_witness:
  "workflows_key fresh_world = None
   \<and> list_all clock_read lifecycle
   \<and> stored (run granting_api api_url lifecycle fresh_world) ''wf-1'' = Some pcr_completed
   \<and> Status pcr_completed = StatusCompleted
   \<and> StartedAt pcr_completed \<noteq> [] \<and> CompletedAt pcr_completed \<noteq> []"
proof -
  have h1: "workflows_key fresh_world = None" by (simp add: fresh_world_def)
  have h2: "list_all clock_read lifecycle" by (simp add: lifecycle_def)
  have h3: "stored (run granting_api api_url lifecycle fresh_world) ''wf-1'' = Some pcr_completed"
    by (rule lifecycle_run)
  have s: "Status pcr_completed = StatusCompleted" by (simp add: pcr_completed_def)
  from reachable_timestamps_match_status [OF h1 h2 h3] s h1 h2 h3
  show ?thesis by simp
qed

section \<open>Create\<close>

lemma handler_uuid [simp]:
  "uuid_source (snd (startWorkflowHandler post deviceAPIURL now workflowID w)) = uuid_source w"
  "uuid_source (snd (completeWorkflowHandler post deviceAPIURL now workflowID w)) = uuid_source w"
  "uuid_source (snd (executeStepHandler post deviceAPIURL b workflowID w)) = uuid_source w"
  by (simp_all add: startWorkflowHandler_def completeWorkflowHandler_def executeStepHandler_def
        split_beta Let_def split: sum.splits option.splits)

lemma create_uuid:
  "\<exists>pre. uuid_source w = pre @ uuid_source (snd (createWorkflowHandler now b w))
         \<and> ID ` set (created_by (Create now b) (fst (createWorkflowHandler now b w))) \<subseteq> set pre"
proof (cases "bind_CreateWorkflowRequest b")
  case (Inl err)
  then show ?thesis by (simp add: createWorkflowHandler_def)
next
  case (Inr req)
  show ?thesis
  proof (cases "uuid_source w")
    case Nil
    with Inr show ?thesis by (simp add: createWorkflowHandler_def uuid_New_def)
  next
    case (Cons u us)
    with Inr have "uuid_source w = [u] @ uuid_source (snd (createWorkflowHandler now b w))
         \<and> ID ` set (created_by (Create now b) (fst (createWorkflowHandler now b w))) \<subseteq> set [u]"
      by (simp add: createWorkflowHandler_def uuid_New_def split_beta Let_def
            split: sum.splits option.splits)
    then show ?thesis by blast
  qed
qed

lemma handle_uuid:
  "\<exists>pre. uuid_source w = pre @ uuid_source (snd (handle post deviceAPIURL r w))
         \<and> ID ` set (created_by r (fst (handle post deviceAPIURL r w))) \<subseteq> set pre"
proof (cases r)
  case (Create now b)
  with create_uuid [of w now b] show ?thesis by simp
qed simp_all

lemma run_uuid:
  "\<exists>pre. uuid_source w = pre @ uuid_source (run post deviceAPIURL rs w)
         \<and> ID ` set (created post deviceAPIURL rs w) \<subseteq> set pre"
proof (induction rs arbitrary: w)
  case Nil
  then show ?case by simp
next
  case (Cons r rs)
  from handle_uuid [of w post deviceAPIURL r]
  obtain p1 where p1: "uuid_source w = p1 @ uuid_source (snd (handle post deviceAPIURL r w))"
    "ID ` set (created_by r (fst (handle post deviceAPIURL r w))) \<subseteq> set p1" by blast
  from Cons.IH [of "snd (handle post deviceAPIURL r w)"]
  obtain p2 where p2: "uuid_source (snd (handle post deviceAPIURL r w))
       = p2 @ uuid_source (run post deviceAPIURL rs (snd (handle post deviceAPIURL r w)))"
    "ID ` set (created post deviceAPIURL rs (snd (handle post deviceAPIURL r w))) \<subseteq> set p2"
    by blast
  from p1 p2 have "uuid_source w = (p1 @ p2) @ uuid_source (run post deviceAPIURL (r # rs) w)
      \<and> ID ` set (created post deviceAPIURL (r # rs) w) \<subseteq> set (p1 @ p2)"
    by auto
  then show ?case by blast
qed

lemma create_succeeds:
  assumes "req_Name req \<noteq> []" and "req_DeviceID req \<noteq> []"
    and "uuid_source w = u # us"
    and "True \<notin> set (take 2 (redis_faults w))"
  shows "\<exists>workflow w'. createWorkflowHandler now (Some req) w
             = (Reply (Response 201 (J_workflow (Some workflow))), w')
           \<and> stored w' (ID workflow) = Some workflow
           \<and> ID workflow = u
           \<and> Status workflow = StatusCreated \<and> StartedAt workflow = []
           \<and> CompletedAt workflow = []"
proof -
  define workflow where
    "workflow = \<lparr>ID = u, Name = req_Name req, DeviceID = req_DeviceID req,
                  SampleBarcodes = req_SampleBarcodes req, Steps = req_Steps req,
                  Status = StatusCreated, CreatedAt = now, StartedAt = [], CompletedAt = []\<rparr>"
  have fields: "ID workflow = u" "Status workflow = StatusCreated" "StartedAt workflow = []"
    "CompletedAt workflow = []"
    by (simp_all add: workflow_def)
  have "fst (createWorkflowHandler now (Some req) w)
          = Reply (Response 201 (J_workflow (Some workflow)))
        \<and> stored (snd (createWorkflowHandler now (Some req) w)) u = Some workflow"
  proof (cases "redis_faults w")
    case Nil
    with assms show ?thesis
      by (simp add: createWorkflowHandler_def bind_CreateWorkflowRequest_def uuid_New_def
            getAllWorkflows_def saveWorkflows_def redis_command_def stored_def workflow_def Let_def
            split: option.splits)
  next
    case (Cons f fs)
    note c1 = this
    show ?thesis
    proof (cases fs)
      case Nil
      with c1 assms show ?thesis
        by (simp add: createWorkflowHandler_def bind_CreateWorkflowRequest_def uuid_New_def
              getAllWorkflows_def saveWorkflows_def redis_command_def stored_def workflow_def Let_def
              split: option.splits)
    next
      case (Cons g gs)
      with c1 assms show ?thesis
        by (simp add: createWorkflowHandler_def bind_CreateWorkflowRequest_def uuid_New_def
              getAllWorkflows_def saveWorkflows_def redis_command_def stored_def workflow_def Let_def
              split: option.splits)
    qed
  qed
  then have "createWorkflowHandler now (Some req) w
               = (Reply (Response 201 (J_workflow (Some workflow))),
                  snd (createWorkflowHandler now (Some req) w))
             \<and> stored (snd (createWorkflowHandler now (Some req) w)) (ID workflow) = Some workflow"
    using fields(1) by (metis prod.collapse)
  with fields show ?thesis by blast
qed

text \<open>
  Claim C7. After any sequence of requests, a Create call with a non-empty name and a
  non-empty device identifier, for which the identifier generator delivers and the two
  store commands succeed, replies 201 with a workflow that is stored under its identifier,
  has status created, no started_at and no completed_at, and whose identifier differs from
  the identifier of every workflow created before. The generator is assumed never to return
  the same identifier twice.
\<close>

theorem create_yields_fresh_created_workflow:
  assumes "distinct (uuid_source w0)"
    and "w = run post deviceAPIURL rs w0"
    and "req_Name req \<noteq> []" and "req_DeviceID req \<noteq> []"
    and "uuid_source w \<noteq> []"
    and "True \<notin> set (take 2 (redis_faults w))"
  shows "\<exists>workflow w'. createWorkflowHandler now (Some req) w
             = (Reply (Response 201 (J_workflow (Some workflow))), w')
           \<and> stored w' (ID workflow) = Some workflow
           \<and> Status workflow = StatusCreated \<and> StartedAt workflow = []
           \<and> CompletedAt workflow = []
           \<and> ID workflow \<notin> ID ` set (created post deviceAPIURL rs w0)"
proof -
  from assms(5) obtain u us where src: "uuid_source w = u # us" by (cases "uuid_source w") auto
  from run_uuid [of w0 post deviceAPIURL rs] assms(2) src
  obtain pre where pre: "uuid_source w0 = pre @ u # us"
    "ID ` set (created post deviceAPIURL rs w0) \<subseteq> set pre" by auto
  with assms(1) have fresh: "u \<notin> ID ` set (created post deviceAPIURL rs w0)" by auto
  from create_succeeds [OF assms(3) assms(4) src assms(6), of now] fresh
  show ?thesis by blast
qed

theorem create_yields_fresh_created_workflow_witness:
  "distinct (uuid_source fresh_world)
   \<and> req_Name pcr_request \<noteq> [] \<and> req_DeviceID pcr_request \<noteq> []
   \<and> uuid_source (run the_device_api api_url one_create fresh_world) \<noteq> []
   \<and> True \<notin> set (take 2 (redis_faults (run the_device_api api_url one_create fresh_world)))
   \<and> ID ` set (created the_device_api api_url one_create fresh_world) = {''wf-1''}
   \<and> (\<exists>workflow w'.
         createWorkflowHandler ''2025-01-15T11:00:00Z'' (Some pcr_request)
            (run the_device_api api_url one_create fresh_world)
           = (Reply (Response 201 (J_workflow (Some workflow))), w')
         \<and> stored w' (ID workflow) = Some workflow
         \<and> Status workflow = StatusCreated \<and> StartedAt workflow = []
         \<and> CompletedAt workflow = []
         \<and> ID workflow \<notin> ID ` set (created the_device_api api_url one_create fresh_world))"
proof -
  have r: "run the_device_api api_url one_create fresh_world
             = fresh_world\<lparr>workflows_key := Some [''wf-1'' \<mapsto> pcr_run],
                            uuid_source := [''wf-2'']\<rparr>"
    by (simp add: one_create_def example_defs store_defs status_defs createWorkflowHandler_def
          bind_CreateWorkflowRequest_def uuid_New_def Let_def)
  have h1: "distinct (uuid_source fresh_world)" by (simp add: fresh_world_def)
  have h3: "req_Name pcr_request \<noteq> []" and h4: "req_DeviceID pcr_request \<noteq> []"
    by (simp_all add: pcr_request_def)
  have h5: "uuid_source (run the_device_api api_url one_create fresh_world) \<noteq> []"
    unfolding r by simp
  have h6: "True \<notin> set (take 2 (redis_faults (run the_device_api api_url one_create fresh_world)))"
    unfolding r by (simp add: fresh_world_def)
  have c: "ID ` set (created the_device_api api_url one_create fresh_world) = {''wf-1''}"
    by (simp add: one_create_def example_defs store_defs status_defs createWorkflowHandler_def
          bind_CreateWorkflowRequest_def uuid_New_def Let_def)
  note t = create_yields_fresh_created_workflow
             [OF h1 refl h3 h4 h5 h6, of "''2025-01-15T11:00:00Z''"]
  show ?thesis
    apply (intro conjI)
          apply (rule h1)
         apply (rule h3)
        apply (rule h4)
       apply (rule h5)
      apply (rule h6)
     apply (rule c)
    apply (rule t)
    done
qed

end
